theory Spec2Isabelle
  imports Complex_Main
begin

section \<open>Tables\<close>

text \<open>
  The PostgreSQL tables of the migration, with the columns the handlers read; columns
  that are only written (timestamps, \<open>payout_multiplier\<close>, \<open>usd_amount\<close>, titles) are
  left out.
  INTEGER columns are \<open>int\<close>, timestamps are \<open>int\<close>, VARCHAR columns are strings.
  DECIMAL columns and the JavaScript numbers that hold fractions are exact rationals:
  \<open>Math.floor(tokensWagered * multiplier)\<close> is computed without the rounding of
  doubles, and what follows uses only its sign, and its value where the doubles are
  exact (multipliers of 2 and of -5). A statement that
  PostgreSQL refuses (a value out of the column's range, a lost connection, a lock
  timeout) is a failed statement of the fault schedule below; the refusals that the
  statement itself decides are part of the statement: the constraints, a multiplier out
  of DECIMAL(4,2), and the status update of the payout review.
\<close>

record account =
  balance :: int
  total_purchased :: int
  total_won :: int
  total_lost :: int

record prediction =
  p_id :: nat
  subcategory :: string
  p_status :: string
  outcome :: "string option"
  yes_payout_multiplier :: rat
  no_payout_multiplier :: rat
  min_bet :: int
  max_bet :: int
  opens_at :: int
  closes_at :: int
  resolves_at :: int
  resolution_source :: "string option"
  resolved_by :: "string option"
  total_yes_tokens :: int
  total_no_tokens :: int
  total_bettors :: int

record user_bet =
  ub_id :: nat
  ub_user_email :: string
  ub_prediction_id :: nat
  ub_position :: string
  ub_tokens_wagered :: int
  ub_potential_payout :: int
  ub_status :: string
  ub_tokens_won :: int
  ub_payout_processed :: bool

record kalshi_bet =
  kb_id :: nat
  kb_user_email :: string
  kb_kalshi_ticker :: string
  kb_position :: string
  kb_tokens_wagered :: int
  kb_potential_payout :: int
  kb_kalshi_status :: string
  kb_status :: string
  kb_tokens_won :: int

record payout_request =
  pr_id :: nat
  pr_user_email :: string
  pr_tokens_amount :: int
  pr_payout_method :: string
  pr_payout_destination :: string
  pr_status :: string
  pr_reviewed_by :: "string option"

text \<open>
  \<open>user_tokens\<close> has a UNIQUE \<open>user_email\<close> and is only read and written by that key:
  a map. The other tables are lists of rows in insertion order.
\<close>

record db =
  user_tokens :: "string \<rightharpoonup> account"
  predictions :: "prediction list"
  user_bets :: "user_bet list"
  kalshi_bets :: "kalshi_bet list"
  payout_requests :: "payout_request list"

section \<open>Handlers as programs over a database session\<close>

text \<open>
  \<open>client.query\<close> runs on the connection taken with \<open>pool.connect()\<close>, \<open>pool.query\<close>
  on a connection of its own, committed at once. One handler runs at a time: the row
  locks (\<open>FOR UPDATE\<close>) and the single-statement updates of the source are what
  serialises concurrent handlers on the same rows, and interleavings are not modelled.
\<close>

datatype conn = Client | Pool

datatype error =
    MissingFields | BadPosition | InvalidAmount | KalshiMinimumBet
  | PredictionNotFound | BettingClosed | BettingEnded | BelowMinimum | AboveMaximum
  | AlreadyBet | AccountNotFound | InsufficientTokens
  | AdminRequired | BadOutcome | AlreadyResolved
  | BadMethod | BelowMinPayout | UserNotFound | InsufficientBalance | BadStatus
  | MarketNotFound | MarketNotOpen | OracleFailure
  | ConstraintViolation | InvalidInteger | NoRow | InconsistentTypes | NumericOverflow
  | StorageFailure conn

text \<open>
  A session: the fault schedule (one entry per statement still to come, \<open>True\<close> when
  that statement throws; past its end nothing throws), the tables as they were at
  BEGIN while a transaction is open, and the tables.
\<close>

record session =
  faults :: "bool list"
  saved :: "db option"
  tables :: db

type_synonym 'a io = "session \<Rightarrow> (error + 'a) \<times> session"

definition ret :: "'a \<Rightarrow> 'a io" where
  "ret x = (\<lambda>s. (Inr x, s))"

definition throw :: "error \<Rightarrow> 'a io" where
  "throw e = (\<lambda>s. (Inl e, s))"

definition bnd :: "'a io \<Rightarrow> ('a \<Rightarrow> 'b io) \<Rightarrow> 'b io" where
  "bnd m k = (\<lambda>s. case m s of (Inl e, s') \<Rightarrow> (Inl e, s') | (Inr x, s') \<Rightarrow> k x s')"

definition tryCatch :: "'a io \<Rightarrow> (error \<Rightarrow> 'a io) \<Rightarrow> 'a io" where
  "tryCatch m h = (\<lambda>s. case m s of (Inl e, s') \<Rightarrow> h e s' | (Inr x, s') \<Rightarrow> (Inr x, s'))"

definition guard :: "bool \<Rightarrow> error \<Rightarrow> unit io" where
  \<comment> \<open>\<open>if (c) throw new Error(...)\<close>\<close>
  "guard c e = (if c then throw e else ret ())"

definition fails :: "bool list \<Rightarrow> bool" where
  "fails fs = (case fs of [] \<Rightarrow> False | f # _ \<Rightarrow> f)"

definition query :: "conn \<Rightarrow> (db \<Rightarrow> error + 'a \<times> db) \<Rightarrow> 'a io" where
  \<comment> \<open>one statement: it throws when the schedule says so or when the statement itself
      is refused (a constraint), and then changes nothing\<close>
  "query c q = (\<lambda>s.
     if fails (faults s) then (Inl (StorageFailure c), s\<lparr>faults := tl (faults s)\<rparr>)
     else (case q (tables s) of
             Inl e \<Rightarrow> (Inl e, s\<lparr>faults := tl (faults s)\<rparr>)
           | Inr (r, d) \<Rightarrow> (Inr r, s\<lparr>faults := tl (faults s), tables := d\<rparr>)))"

definition BEGIN :: "unit io" where
  "BEGIN = (\<lambda>s.
     if fails (faults s) then (Inl (StorageFailure Client), s\<lparr>faults := tl (faults s)\<rparr>)
     else (Inr (), s\<lparr>faults := tl (faults s), saved := Some (tables s)\<rparr>))"

definition COMMIT :: "unit io" where
  "COMMIT = (\<lambda>s.
     if fails (faults s) then (Inl (StorageFailure Client), s\<lparr>faults := tl (faults s)\<rparr>)
     else (Inr (), s\<lparr>faults := tl (faults s), saved := None\<rparr>))"

definition ROLLBACK :: "unit io" where
  \<comment> \<open>restores the tables of BEGIN; outside a transaction it does nothing; it is the
      one statement taken never to fail (a lost connection aborts the transaction too)\<close>
  "ROLLBACK = (\<lambda>s.
     (Inr (), s\<lparr>tables := (case saved s of None \<Rightarrow> tables s | Some d \<Rightarrow> d), saved := None\<rparr>))"

definition rollbackAnd :: "(error \<Rightarrow> 'a io) \<Rightarrow> error \<Rightarrow> 'a io" where
  \<comment> \<open>\<open>catch (error) { await client.query('ROLLBACK'); ... }\<close>\<close>
  "rollbackAnd h e = bnd ROLLBACK (\<lambda>_. h e)"

definition run :: "'a io \<Rightarrow> bool list \<Rightarrow> db \<Rightarrow> (error + 'a) \<times> db" where
  \<comment> \<open>a handler from a fresh connection, under a fault schedule\<close>
  "run h fs d = (case h \<lparr>faults = fs, saved = None, tables = d\<rparr> of (r, s) \<Rightarrow> (r, tables s))"

section \<open>Statements\<close>

definition selectPrediction :: "nat \<Rightarrow> db \<Rightarrow> error + prediction option \<times> db" where
  \<comment> \<open>\<open>SELECT * FROM predictions WHERE id = $1 [FOR UPDATE]\<close>, \<open>rows[0]\<close>\<close>
  "selectPrediction i d = Inr (find (\<lambda>p. p_id p = i) (predictions d), d)"

definition selectUserBets :: "nat \<Rightarrow> string \<Rightarrow> db \<Rightarrow> error + user_bet list \<times> db" where
  \<comment> \<open>\<open>SELECT * FROM user_bets WHERE prediction_id = $1 AND user_email = $2\<close>\<close>
  "selectUserBets i e d =
     Inr (filter (\<lambda>b. ub_prediction_id b = i \<and> ub_user_email b = e) (user_bets d), d)"

definition selectUser :: "string \<Rightarrow> db \<Rightarrow> error + account option \<times> db" where
  \<comment> \<open>\<open>SELECT * FROM user_tokens WHERE user_email = $1 [FOR UPDATE]\<close>\<close>
  "selectUser e d = Inr (user_tokens d e, d)"

definition updateUser :: "(account \<Rightarrow> account) \<Rightarrow> string \<Rightarrow> db \<Rightarrow> error + unit \<times> db" where
  \<comment> \<open>\<open>UPDATE user_tokens SET ... WHERE user_email = $n\<close>: no row, no change\<close>
  "updateUser f e d =
     Inr ((), case user_tokens d e of None \<Rightarrow> d
              | Some a \<Rightarrow> d\<lparr>user_tokens := (user_tokens d)(e \<mapsto> f a)\<rparr>)"

definition debit :: "int \<Rightarrow> account \<Rightarrow> account" where
  \<comment> \<open>\<open>SET balance = balance - $1\<close>\<close>
  "debit n a = a\<lparr>balance := balance a - n\<rparr>"

definition credit :: "int \<Rightarrow> account \<Rightarrow> account" where
  \<comment> \<open>\<open>SET balance = balance + $1\<close>\<close>
  "credit n a = a\<lparr>balance := balance a + n\<rparr>"

definition nextId :: "nat list \<Rightarrow> nat" where
  \<comment> \<open>a SERIAL key: larger than every key of the table\<close>
  "nextId ids = Suc (fold max ids 0)"

definition insertUserBet ::
  "string \<Rightarrow> nat \<Rightarrow> string \<Rightarrow> int \<Rightarrow> int \<Rightarrow> db \<Rightarrow> error + user_bet \<times> db" where
  \<comment> \<open>\<open>INSERT INTO user_bets (...) VALUES (...) RETURNING *\<close>, under the foreign keys
      and \<open>idx_user_bets_unique\<close>; the other columns take their defaults\<close>
  "insertUserBet e i pos t pay d =
     (if user_tokens d e = None \<or> find (\<lambda>p. p_id p = i) (predictions d) = None
         \<or> (\<exists>b \<in> set (user_bets d). ub_user_email b = e \<and> ub_prediction_id b = i)
      then Inl ConstraintViolation
      else let b = \<lparr>ub_id = nextId (map ub_id (user_bets d)), ub_user_email = e,
                     ub_prediction_id = i, ub_position = pos, ub_tokens_wagered = t,
                     ub_potential_payout = pay,
                     ub_status = ''active'', ub_tokens_won = 0,
                     ub_payout_processed = False\<rparr>
           in Inr (b, d\<lparr>user_bets := user_bets d @ [b]\<rparr>))"

definition addVolume :: "string \<Rightarrow> int \<Rightarrow> prediction \<Rightarrow> prediction" where
  \<comment> \<open>\<open>SET ${volumeColumn} = ${volumeColumn} + $1, total_bettors = total_bettors + 1\<close>\<close>
  "addVolume pos t p =
     (if pos = ''yes'' then p\<lparr>total_yes_tokens := total_yes_tokens p + t,
                               total_bettors := total_bettors p + 1\<rparr>
      else p\<lparr>total_no_tokens := total_no_tokens p + t,
              total_bettors := total_bettors p + 1\<rparr>)"

definition updatePrediction :: "(prediction \<Rightarrow> prediction) \<Rightarrow> nat \<Rightarrow> db \<Rightarrow> error + unit \<times> db" where
  \<comment> \<open>\<open>UPDATE predictions SET ... WHERE id = $n\<close>\<close>
  "updatePrediction f i d =
     Inr ((), d\<lparr>predictions := map (\<lambda>p. if p_id p = i then f p else p) (predictions d)\<rparr>)"

definition selectBalance :: "string \<Rightarrow> db \<Rightarrow> error + int \<times> db" where
  \<comment> \<open>\<open>SELECT balance FROM user_tokens WHERE user_email = $1\<close>, then \<open>rows[0].balance\<close>,
      a TypeError when there is no row\<close>
  "selectBalance e d = (case user_tokens d e of None \<Rightarrow> Inl NoRow | Some a \<Rightarrow> Inr (balance a, d))"

section \<open>Placing a bet on an internal market: POST /api/predictions/bet\<close>

text \<open>
  A body field that \<open>parseInt\<close> reads: absent (or falsy), not a number, or the
  integer read.
\<close>

datatype amount = Absent | NotANumber | Num int

record bet_request =
  br_email :: string
  br_predictionId :: nat
  br_position :: string
  br_amount :: amount

definition betTransaction :: "int \<Rightarrow> string \<Rightarrow> nat \<Rightarrow> string \<Rightarrow> int \<Rightarrow> (user_bet \<times> int) io" where
  \<comment> \<open>the \<open>try\<close> block of the route, from BEGIN to the response\<close>
  "betTransaction now e i pos tokensWagered =
     bnd BEGIN (\<lambda>_.
     bnd (query Client (selectPrediction i)) (\<lambda>predictionResult.
     case predictionResult of
       None \<Rightarrow> throw PredictionNotFound
     | Some prediction \<Rightarrow>
     bnd (guard (p_status prediction \<noteq> ''open'') BettingClosed) (\<lambda>_.
     bnd (guard (now > closes_at prediction) BettingEnded) (\<lambda>_.
     bnd (guard (tokensWagered < min_bet prediction) BelowMinimum) (\<lambda>_.
     bnd (guard (tokensWagered > max_bet prediction) AboveMaximum) (\<lambda>_.
     bnd (query Client (selectUserBets i e)) (\<lambda>existingBet.
     bnd (guard (length existingBet > 0) AlreadyBet) (\<lambda>_.
     bnd (query Client (selectUser e)) (\<lambda>userResult.
     case userResult of
       None \<Rightarrow> throw AccountNotFound
     | Some user \<Rightarrow>
     bnd (guard (balance user < tokensWagered) InsufficientTokens) (\<lambda>_.
     let multiplier = (if pos = ''yes'' then yes_payout_multiplier prediction
                       else no_payout_multiplier prediction);
         potentialPayout = \<lfloor>of_int tokensWagered * multiplier\<rfloor>
     in
     bnd (query Client (updateUser (debit tokensWagered) e)) (\<lambda>_.
     bnd (query Client (insertUserBet e i pos tokensWagered potentialPayout)) (\<lambda>bet.
     bnd (query Client (updatePrediction (addVolume pos tokensWagered) i)) (\<lambda>_.
     bnd COMMIT (\<lambda>_.
     bnd (query Pool (selectBalance e)) (\<lambda>newBalance.
     ret (bet, newBalance))))))))))))))))"

definition placeBet :: "int \<Rightarrow> bet_request \<Rightarrow> (user_bet \<times> int) io" where
  "placeBet now req =
     (if br_email req = [] \<or> br_predictionId req = 0 \<or> br_position req = [] \<or> br_amount req = Absent
      then throw MissingFields
      else if br_position req \<notin> {''yes'', ''no''} then throw BadPosition
      else case br_amount req of
             Num tokensWagered \<Rightarrow>
               if tokensWagered < 1 then throw InvalidAmount
               else tryCatch
                      (betTransaction now (br_email req) (br_predictionId req) (br_position req) tokensWagered)
                      (rollbackAnd throw)
           | _ \<Rightarrow> throw InvalidAmount)"

section \<open>Settlement of internal markets\<close>

definition markResolved :: "string \<Rightarrow> string \<Rightarrow> string \<Rightarrow> prediction \<Rightarrow> prediction" where
  \<comment> \<open>\<open>SET status = 'resolved', outcome = $1, resolution_source = $2, resolved_by = $3\<close>\<close>
  "markResolved out src by p =
     p\<lparr>p_status := ''resolved'', outcome := Some out, resolution_source := Some src,
       resolved_by := Some by\<rparr>"

definition selectActiveBets :: "nat \<Rightarrow> db \<Rightarrow> error + user_bet list \<times> db" where
  \<comment> \<open>\<open>SELECT * FROM user_bets WHERE prediction_id = $1 AND status = 'active'\<close>\<close>
  "selectActiveBets i d =
     Inr (filter (\<lambda>b. ub_prediction_id b = i \<and> ub_status b = ''active'') (user_bets d), d)"

definition updateUserBet :: "(user_bet \<Rightarrow> user_bet) \<Rightarrow> nat \<Rightarrow> db \<Rightarrow> error + unit \<times> db" where
  \<comment> \<open>\<open>UPDATE user_bets SET ... WHERE id = $3\<close>\<close>
  "updateUserBet f i d =
     Inr ((), d\<lparr>user_bets := map (\<lambda>b. if ub_id b = i then f b else b) (user_bets d)\<rparr>)"

definition settled :: "bool \<Rightarrow> int \<Rightarrow> user_bet \<Rightarrow> user_bet" where
  \<comment> \<open>\<open>SET status = $1, tokens_won = $2, payout_processed = TRUE\<close>\<close>
  "settled won tokensWon b =
     b\<lparr>ub_status := (if won then ''won'' else ''lost''), ub_tokens_won := tokensWon,
       ub_payout_processed := True\<rparr>"

definition payWinner :: "int \<Rightarrow> int \<Rightarrow> account \<Rightarrow> account" where
  \<comment> \<open>\<open>SET balance = balance + $1, total_won = total_won + $2\<close>\<close>
  "payWinner n w a = a\<lparr>balance := balance a + n, total_won := total_won a + w\<rparr>"

definition recordLoss :: "int \<Rightarrow> account \<Rightarrow> account" where
  \<comment> \<open>\<open>SET total_lost = total_lost + $1\<close>\<close>
  "recordLoss n a = a\<lparr>total_lost := total_lost a + n\<rparr>"

definition settleBet :: "string \<Rightarrow> user_bet \<Rightarrow> bool io" where
  \<comment> \<open>the body of \<open>for (const bet of betsResult.rows)\<close>, the same text in the admin
      route and in \<open>processBetsForPrediction\<close>; it returns \<open>won\<close>\<close>
  "settleBet out bet =
     (let won = (ub_position bet = out);
          tokensWon = (if won then ub_potential_payout bet else 0)
      in
      bnd (query Client (updateUserBet (settled won tokensWon) (ub_id bet))) (\<lambda>_.
      bnd (if won
           then query Client (updateUser (payWinner tokensWon (tokensWon - ub_tokens_wagered bet))
                                         (ub_user_email bet))
           else query Client (updateUser (recordLoss (ub_tokens_wagered bet)) (ub_user_email bet)))
          (\<lambda>_.
      ret won)))"

fun settleBets :: "string \<Rightarrow> user_bet list \<Rightarrow> unit io" where
  "settleBets out [] = ret ()"
| "settleBets out (bet # rest) = bnd (settleBet out bet) (\<lambda>_. settleBets out rest)"

record resolve_request =
  rr_id :: nat
  rr_outcome :: string
  rr_adminEmail :: string
  rr_source :: string

definition resolveTransaction :: "resolve_request \<Rightarrow> nat io" where
  "resolveTransaction req =
     bnd BEGIN (\<lambda>_.
     bnd (query Client (selectPrediction (rr_id req))) (\<lambda>predictionResult.
     case predictionResult of
       None \<Rightarrow> throw PredictionNotFound
     | Some prediction \<Rightarrow>
     bnd (guard (p_status prediction = ''resolved'') AlreadyResolved) (\<lambda>_.
     bnd (query Client (updatePrediction
            (markResolved (rr_outcome req)
               (if rr_source req = [] then ''Manual resolution'' else rr_source req)
               (rr_adminEmail req))
            (rr_id req))) (\<lambda>_.
     bnd (query Client (selectActiveBets (rr_id req))) (\<lambda>betsResult.
     bnd (settleBets (rr_outcome req) betsResult) (\<lambda>_.
     bnd COMMIT (\<lambda>_.
     ret (length betsResult))))))))"

definition resolve :: "resolve_request \<Rightarrow> nat io" where
  \<comment> \<open>POST /api/predictions/:id/resolve; it answers \<open>betsProcessed\<close>\<close>
  "resolve req =
     (if rr_adminEmail req = [] then throw AdminRequired
      else if rr_outcome req \<notin> {''yes'', ''no''} then throw BadOutcome
      else tryCatch (resolveTransaction req) (rollbackAnd throw))"

subsection \<open>The auto-resolver script\<close>

fun processLoop :: "string \<Rightarrow> user_bet list \<Rightarrow> nat \<times> nat \<times> int \<Rightarrow> (nat \<times> nat \<times> int) io" where
  \<comment> \<open>the loop of \<open>processBetsForPrediction\<close> with \<open>winners\<close>, \<open>losers\<close>, \<open>totalPaidOut\<close>\<close>
  "processLoop out [] acc = ret acc"
| "processLoop out (bet # rest) (winners, losers, totalPaidOut) =
     bnd (settleBet out bet) (\<lambda>won.
     processLoop out rest
       (if won then (winners + 1, losers, totalPaidOut + ub_potential_payout bet)
        else (winners, losers + 1, totalPaidOut)))"

definition processBetsForPrediction :: "nat \<Rightarrow> string \<Rightarrow> (nat \<times> nat \<times> int \<times> nat) io" where
  "processBetsForPrediction predictionId out =
     tryCatch
       (bnd BEGIN (\<lambda>_.
        bnd (query Client (selectActiveBets predictionId)) (\<lambda>betsResult.
        bnd (processLoop out betsResult (0, 0, 0)) (\<lambda>(winners, losers, totalPaidOut).
        bnd COMMIT (\<lambda>_.
        ret (winners, losers, totalPaidOut, length betsResult))))))
       (rollbackAnd throw)"

definition manualResolve :: "nat \<Rightarrow> string \<Rightarrow> string \<Rightarrow> string \<Rightarrow> (nat \<times> nat \<times> int \<times> nat) io" where
  "manualResolve predictionId out adminEmail src =
     (if out \<notin> {''yes'', ''no''} then throw BadOutcome
      else bnd (query Pool (updatePrediction (markResolved out src adminEmail) predictionId)) (\<lambda>_.
           processBetsForPrediction predictionId out))"

text \<open>
  The price oracle: \<open>getQuote\<close> answers whether the day closed green, the weekly fetch
  whether the week moved by the target range; \<open>None\<close> when the fetch failed.
\<close>

record price_oracle =
  getQuote :: "prediction \<Rightarrow> bool option"
  weeklyMove :: "prediction \<Rightarrow> bool option"

definition resolveDailyCloseGreen :: "price_oracle \<Rightarrow> prediction \<Rightarrow> (string \<times> string) option" where
  "resolveDailyCloseGreen orc p =
     (case getQuote orc p of None \<Rightarrow> None
      | Some isGreen \<Rightarrow> Some (if isGreen then ''yes'' else ''no'', ''Yahoo Finance''))"

definition resolveWeeklyRange :: "price_oracle \<Rightarrow> prediction \<Rightarrow> (string \<times> string) option" where
  "resolveWeeklyRange orc p =
     (case getQuote orc p of None \<Rightarrow> None
      | Some _ \<Rightarrow> (case weeklyMove orc p of None \<Rightarrow> None
                  | Some movedEnough \<Rightarrow> Some (if movedEnough then ''yes'' else ''no'', ''Yahoo Finance'')))"

definition selectReady :: "int \<Rightarrow> db \<Rightarrow> error + prediction list \<times> db" where
  \<comment> \<open>\<open>SELECT * FROM predictions WHERE status = 'closed' AND outcome IS NULL
      AND resolves_at <= NOW() ORDER BY resolves_at ASC\<close>\<close>
  "selectReady now d =
     Inr (sort_key resolves_at
            (filter (\<lambda>p. p_status p = ''closed'' \<and> outcome p = None \<and> resolves_at p \<le> now)
               (predictions d)), d)"

fun resolveEach :: "price_oracle \<Rightarrow> prediction list \<Rightarrow> nat \<times> nat \<Rightarrow> (nat \<times> nat) io" where
  \<comment> \<open>\<open>for (const prediction of readyResult.rows)\<close> with \<open>resolved\<close> and \<open>failed\<close>\<close>
  "resolveEach orc [] acc = ret acc"
| "resolveEach orc (prediction # rest) (resolved, failed) =
     (if subcategory prediction = ''close_green'' \<or> subcategory prediction = ''range'' then
        (case (if subcategory prediction = ''close_green''
               then resolveDailyCloseGreen orc prediction
               else resolveWeeklyRange orc prediction) of
           None \<Rightarrow> resolveEach orc rest (resolved, failed + 1)
         | Some (out, src) \<Rightarrow>
             bnd (query Pool (updatePrediction (markResolved out src ''auto-resolver'')
                                (p_id prediction))) (\<lambda>_.
             bnd (processBetsForPrediction (p_id prediction) out) (\<lambda>_.
             resolveEach orc rest (resolved + 1, failed))))
      else resolveEach orc rest (resolved, failed))"

definition resolveReadyPredictions :: "price_oracle \<Rightarrow> int \<Rightarrow> (nat \<times> nat) io" where
  \<comment> \<open>an error stands for the \<open>{ success: false, error }\<close> that the \<open>catch\<close> returns\<close>
  "resolveReadyPredictions orc now =
     bnd (query Pool (selectReady now)) (\<lambda>readyResult.
     if readyResult = [] then ret (0, 0)
     else resolveEach orc readyResult (0, 0))"

section \<open>Bets on Kalshi markets\<close>

text \<open>
  What \<open>GET /markets/:ticker\<close> answers: the request throws, the answer has no
  \<open>market\<close>, or the market with its \<open>status\<close>, its \<open>result\<close> (empty when absent) and
  its \<open>yes_ask\<close> in cents (0 when absent).
\<close>

record kalshi_market =
  km_status :: string
  km_result :: string
  km_yes_ask :: int

datatype kalshi_reply = Unavailable | NoMarket | Market kalshi_market

type_synonym kalshi = "string \<Rightarrow> kalshi_reply"

record listed_market =
  lm_status :: string
  lm_result :: string
  lm_min_bet :: int
  lm_max_bet :: int

definition transformKalshiMarket :: "kalshi_market \<Rightarrow> listed_market" where
  \<comment> \<open>the market as the listing routes show it (status, result and the bet bounds)\<close>
  "transformKalshiMarket m =
     \<lparr>lm_status = km_status m, lm_result = km_result m, lm_min_bet = 10, lm_max_bet = 10000\<rparr>"

definition kalshiRequest :: "kalshi \<Rightarrow> string \<Rightarrow> kalshi_market option io" where
  "kalshiRequest k ticker =
     (case k ticker of Unavailable \<Rightarrow> throw OracleFailure
      | NoMarket \<Rightarrow> ret None
      | Market m \<Rightarrow> ret (Some m))"

definition ddl :: "db \<Rightarrow> error + unit \<times> db" where
  \<comment> \<open>\<open>CREATE TABLE IF NOT EXISTS kalshi_bets\<close>, \<open>ADD COLUMN IF NOT EXISTS\<close>: the table
      is there already\<close>
  "ddl d = Inr ((), d)"

definition selectKalshiBets :: "string \<Rightarrow> string \<Rightarrow> db \<Rightarrow> error + kalshi_bet list \<times> db" where
  \<comment> \<open>\<open>SELECT * FROM kalshi_bets WHERE kalshi_ticker = $1 AND user_email = $2\<close>\<close>
  "selectKalshiBets ticker e d =
     Inr (filter (\<lambda>b. kb_kalshi_ticker b = ticker \<and> kb_user_email b = e) (kalshi_bets d), d)"

definition insertKalshiBet ::
  "string \<Rightarrow> string \<Rightarrow> string \<Rightarrow> int \<Rightarrow> int \<Rightarrow> string \<Rightarrow> db \<Rightarrow> error + kalshi_bet \<times> db" where
  \<comment> \<open>\<open>INSERT INTO kalshi_bets (...) RETURNING *\<close>, under the foreign key and
      \<open>UNIQUE(user_email, kalshi_ticker)\<close>\<close>
  "insertKalshiBet e ticker pos t pay st d =
     (if user_tokens d e = None
         \<or> (\<exists>b \<in> set (kalshi_bets d). kb_user_email b = e \<and> kb_kalshi_ticker b = ticker)
      then Inl ConstraintViolation
      else let b = \<lparr>kb_id = nextId (map kb_id (kalshi_bets d)), kb_user_email = e,
                     kb_kalshi_ticker = ticker, kb_position = pos, kb_tokens_wagered = t,
                     kb_potential_payout = pay, kb_kalshi_status = st,
                     kb_status = ''active'', kb_tokens_won = 0\<rparr>
           in Inr (b, d\<lparr>kalshi_bets := kalshi_bets d @ [b]\<rparr>))"

record kalshi_request =
  kr_email :: string
  kr_marketTicker :: string
  kr_position :: string
  kr_amount :: amount

definition kalshiBetTransaction ::
  "kalshi \<Rightarrow> string \<Rightarrow> string \<Rightarrow> string \<Rightarrow> int \<Rightarrow> (kalshi_bet \<times> int) io" where
  \<comment> \<open>a failed \<open>ALTER TABLE\<close> is swallowed by its \<open>.catch(() => {})\<close>; PostgreSQL then
      fails every later statement of the transaction, which is one of the schedules\<close>
  "kalshiBetTransaction k e ticker pos tokensWagered =
     bnd BEGIN (\<lambda>_.
     bnd (kalshiRequest k ticker) (\<lambda>marketData.
     case marketData of
       None \<Rightarrow> throw MarketNotFound
     | Some market \<Rightarrow>
     bnd (guard (km_status market \<notin> {''open'', ''active''}) MarketNotOpen) (\<lambda>_.
     bnd (query Client ddl) (\<lambda>_.
     bnd (tryCatch (query Client ddl) (\<lambda>_. ret ())) (\<lambda>_.
     let yesPrice = (if km_yes_ask market \<noteq> 0 then of_int (km_yes_ask market) / 100 else 1 / 2);
         noPrice = 1 - yesPrice;
         multiplier = (if pos = ''yes'' then (if yesPrice > 0 then 1 / yesPrice else 2)
                       else (if noPrice > 0 then 1 / noPrice else (2::rat)))
     in
     bnd (query Client (selectUser e)) (\<lambda>userResult.
     case userResult of
       None \<Rightarrow> throw AccountNotFound
     | Some user \<Rightarrow>
     bnd (guard (balance user < tokensWagered) InsufficientTokens) (\<lambda>_.
     bnd (query Client (selectKalshiBets ticker e)) (\<lambda>existingBet.
     bnd (guard (length existingBet > 0) AlreadyBet) (\<lambda>_.
     let potentialPayout = \<lfloor>of_int tokensWagered * multiplier\<rfloor> in
     bnd (query Client (updateUser (debit tokensWagered) e)) (\<lambda>_.
     bnd (query Client (insertKalshiBet e ticker pos tokensWagered potentialPayout
                          (km_status market))) (\<lambda>bet.
     bnd COMMIT (\<lambda>_.
     bnd (query Pool (selectBalance e)) (\<lambda>newBalance.
     ret (bet, newBalance))))))))))))))"

definition kalshiBet :: "kalshi \<Rightarrow> kalshi_request \<Rightarrow> (kalshi_bet \<times> int) io" where
  \<comment> \<open>POST /api/kalshi/bet\<close>
  "kalshiBet k req =
     (if kr_email req = [] \<or> kr_marketTicker req = [] \<or> kr_position req = []
         \<or> kr_amount req = Absent
      then throw MissingFields
      else if kr_position req \<notin> {''yes'', ''no''} then throw BadPosition
      else case kr_amount req of
             Num tokensWagered \<Rightarrow>
               if tokensWagered < 10 then throw KalshiMinimumBet
               else tryCatch
                      (kalshiBetTransaction k (kr_email req) (kr_marketTicker req)
                         (kr_position req) tokensWagered)
                      (rollbackAnd throw)
           | _ \<Rightarrow> throw KalshiMinimumBet)"

subsection \<open>POST /api/kalshi/sync-resolutions\<close>

definition selectActiveTickers :: "db \<Rightarrow> error + string list \<times> db" where
  \<comment> \<open>\<open>SELECT DISTINCT kalshi_ticker FROM kalshi_bets WHERE status = 'active'\<close>\<close>
  "selectActiveTickers d =
     Inr (remdups (map kb_kalshi_ticker (filter (\<lambda>b. kb_status b = ''active'') (kalshi_bets d))), d)"

definition selectActiveKalshiBets :: "string \<Rightarrow> db \<Rightarrow> error + kalshi_bet list \<times> db" where
  \<comment> \<open>\<open>SELECT * FROM kalshi_bets WHERE kalshi_ticker = $1 AND status = 'active'\<close>\<close>
  "selectActiveKalshiBets ticker d =
     Inr (filter (\<lambda>b. kb_kalshi_ticker b = ticker \<and> kb_status b = ''active'') (kalshi_bets d), d)"

definition updateKalshiBet :: "(kalshi_bet \<Rightarrow> kalshi_bet) \<Rightarrow> nat \<Rightarrow> db \<Rightarrow> error + unit \<times> db" where
  \<comment> \<open>\<open>UPDATE kalshi_bets SET ... WHERE id = $3\<close>\<close>
  "updateKalshiBet f i d =
     Inr ((), d\<lparr>kalshi_bets := map (\<lambda>b. if kb_id b = i then f b else b) (kalshi_bets d)\<rparr>)"

definition kalshiSettled :: "string \<Rightarrow> int \<Rightarrow> kalshi_bet \<Rightarrow> kalshi_bet" where
  \<comment> \<open>\<open>SET status = $1, tokens_won = $2, kalshi_status = 'finalized'\<close>\<close>
  "kalshiSettled newStatus tokensWon b =
     b\<lparr>kb_status := newStatus, kb_tokens_won := tokensWon, kb_kalshi_status := ''finalized''\<rparr>"

definition creditWinner :: "int \<Rightarrow> account \<Rightarrow> account" where
  \<comment> \<open>\<open>SET balance = balance + $1, total_won = total_won + $1\<close>\<close>
  "creditWinner n a = a\<lparr>balance := balance a + n, total_won := total_won a + n\<rparr>"

definition syncBet :: "string \<Rightarrow> kalshi_bet \<Rightarrow> unit io" where
  \<comment> \<open>the body of \<open>for (const bet of bets.rows)\<close>; \<open>resolvedCount\<close> and \<open>payoutTotal\<close>
      only feed the response message\<close>
  "syncBet out bet =
     (let won = (kb_position bet = out);
          tokensWon = (if won then kb_potential_payout bet else 0);
          newStatus = (if won then ''won'' else ''lost'')
      in
      bnd (query Pool (updateKalshiBet (kalshiSettled newStatus tokensWon) (kb_id bet))) (\<lambda>_.
      if won then query Pool (updateUser (creditWinner tokensWon) (kb_user_email bet))
      else query Pool (updateUser (recordLoss (kb_tokens_wagered bet)) (kb_user_email bet))))"

fun syncBets :: "string \<Rightarrow> kalshi_bet list \<Rightarrow> unit io" where
  "syncBets out [] = ret ()"
| "syncBets out (bet # rest) = bnd (syncBet out bet) (\<lambda>_. syncBets out rest)"

definition syncMarket :: "kalshi \<Rightarrow> string \<Rightarrow> unit io" where
  \<comment> \<open>the body of \<open>for (const row of activeBets.rows)\<close>, with its own \<open>try\<close>/\<open>catch\<close>\<close>
  "syncMarket k ticker =
     tryCatch
       (bnd (kalshiRequest k ticker) (\<lambda>marketData.
        case marketData of
          None \<Rightarrow> ret ()
        | Some market \<Rightarrow>
            if km_status market = ''finalized'' \<or> km_result market \<noteq> [] then
              (let out = km_result market in
               if out \<noteq> [] then
                 bnd (query Pool (selectActiveKalshiBets ticker)) (\<lambda>bets. syncBets out bets)
               else ret ())
            else ret ()))
       (\<lambda>err. ret ())"

fun syncMarkets :: "kalshi \<Rightarrow> string list \<Rightarrow> unit io" where
  "syncMarkets k [] = ret ()"
| "syncMarkets k (ticker # rest) = bnd (syncMarket k ticker) (\<lambda>_. syncMarkets k rest)"

definition syncResolutions :: "kalshi \<Rightarrow> unit io" where
  "syncResolutions k =
     bnd (query Pool selectActiveTickers) (\<lambda>activeBets.
     if activeBets = [] then ret () else syncMarkets k activeBets)"

section \<open>Payout requests\<close>

definition MIN_PAYOUT_TOKENS :: int where
  "MIN_PAYOUT_TOKENS = 1000"

record payout_form =
  pf_email :: string
  pf_tokensAmount :: amount
  pf_method :: string
  pf_destination :: string

definition insertPayoutRequest ::
  "string \<Rightarrow> int \<Rightarrow> string \<Rightarrow> string \<Rightarrow> db \<Rightarrow> error + payout_request \<times> db" where
  \<comment> \<open>\<open>INSERT INTO payout_requests (...) RETURNING *\<close>, under the foreign key\<close>
  "insertPayoutRequest e t method dest d =
     (if user_tokens d e = None then Inl ConstraintViolation
      else let r = \<lparr>pr_id = nextId (map pr_id (payout_requests d)), pr_user_email = e,
                     pr_tokens_amount = t, pr_payout_method = method,
                     pr_payout_destination = dest, pr_status = ''pending'',
                     pr_reviewed_by = None\<rparr>
           in Inr (r, d\<lparr>payout_requests := payout_requests d @ [r]\<rparr>))"

definition refused :: "db \<Rightarrow> error + unit \<times> db" where
  \<comment> \<open>a statement whose integer parameter is NaN\<close>
  "refused d = Inl InvalidInteger"

definition payoutTransaction :: "string \<Rightarrow> int option \<Rightarrow> string \<Rightarrow> string \<Rightarrow> payout_request io" where
  \<comment> \<open>\<open>tokens\<close> is \<open>parseInt(tokensAmount)\<close>, \<open>None\<close> for NaN, which every comparison
      lets through\<close>
  "payoutTransaction e tokens method dest =
     bnd BEGIN (\<lambda>_.
     bnd (query Client (selectUser e)) (\<lambda>userResult.
     case userResult of
       None \<Rightarrow> throw UserNotFound
     | Some user \<Rightarrow>
     bnd (guard (case tokens of None \<Rightarrow> False | Some t \<Rightarrow> balance user < t)
            InsufficientBalance) (\<lambda>_.
     case tokens of
       None \<Rightarrow> bnd (query Client refused) (\<lambda>_. throw InvalidInteger)
     | Some t \<Rightarrow>
     bnd (query Client (updateUser (debit t) e)) (\<lambda>_.
     bnd (query Client (insertPayoutRequest e t method dest)) (\<lambda>payout.
     bnd COMMIT (\<lambda>_.
     ret payout))))))"

definition requestPayout :: "payout_form \<Rightarrow> payout_request io" where
  \<comment> \<open>POST /api/predictions/payout/request\<close>
  "requestPayout req =
     (if pf_email req = [] \<or> pf_tokensAmount req = Absent \<or> pf_method req = []
         \<or> pf_destination req = []
      then throw MissingFields
      else if pf_method req \<notin> {''zelle'', ''paypal''} then throw BadMethod
      else let tokens = (case pf_tokensAmount req of Num n \<Rightarrow> Some n | _ \<Rightarrow> None) in
           if (case tokens of None \<Rightarrow> False | Some t \<Rightarrow> t < MIN_PAYOUT_TOKENS)
           then throw BelowMinPayout
           else tryCatch (payoutTransaction (pf_email req) tokens (pf_method req)
                            (pf_destination req))
                  (rollbackAnd throw))"

record review =
  rv_payoutId :: nat
  rv_adminEmail :: string
  rv_status :: string

definition selectPayout :: "nat \<Rightarrow> db \<Rightarrow> error + payout_request option \<times> db" where
  \<comment> \<open>\<open>SELECT * FROM payout_requests WHERE id = $1\<close>, \<open>rows[0]\<close>\<close>
  "selectPayout i d = Inr (find (\<lambda>r. pr_id r = i) (payout_requests d), d)"

definition updatePayoutStatus :: "string \<Rightarrow> string \<Rightarrow> nat \<Rightarrow> db \<Rightarrow> error + unit \<times> db" where
  \<comment> \<open>\<open>UPDATE payout_requests SET status = $1, reviewed_by = $2, ...,
      completed_at = CASE WHEN $1 = 'completed' THEN NOW() ELSE completed_at END
      WHERE id = $5\<close>: \<open>$1\<close> is the VARCHAR \<open>status\<close> in one place and text in the
      comparison, so PostgreSQL refuses the statement on every call (inconsistent types
      deduced for parameter \<open>$1\<close>) and no row is touched\<close>
  "updatePayoutStatus st by i d = Inl InconsistentTypes"

definition processPayout :: "review \<Rightarrow> unit io" where
  \<comment> \<open>POST /api/predictions/admin/process-payout; an error stands for the 500 answer\<close>
  "processPayout rv =
     (if rv_status rv \<notin> {''approved'', ''completed'', ''rejected''} then throw BadStatus
      else
        bnd (if rv_status rv = ''rejected'' then
               bnd (query Pool (selectPayout (rv_payoutId rv))) (\<lambda>payoutResult.
               case payoutResult of
                 None \<Rightarrow> ret ()
               | Some payout \<Rightarrow>
                   query Pool (updateUser (credit (pr_tokens_amount payout)) (pr_user_email payout)))
             else ret ()) (\<lambda>_.
        query Pool (updatePayoutStatus (rv_status rv) (rv_adminEmail rv) (rv_payoutId rv))))"

section \<open>The market registry\<close>

text \<open>
  The body of a market creation: a numeric field is absent (\<open>None\<close>) or a number, a
  date is absent or a timestamp, a text field is absent when empty.
\<close>

record create_request =
  cr_adminEmail :: string
  cr_title :: string
  cr_category :: string
  cr_subcategory :: string
  cr_yesMultiplier :: "rat option"
  cr_noMultiplier :: "rat option"
  cr_minBet :: "int option"
  cr_maxBet :: "int option"
  cr_opensAt :: "int option"
  cr_closesAt :: "int option"
  cr_resolvesAt :: "int option"

definition numeric42 :: "rat \<Rightarrow> rat option" where
  \<comment> \<open>a value stored in a DECIMAL(4,2) column: rounded to two decimals, half away from
      zero, and refused from 100 on\<close>
  "numeric42 m =
     (let c = (if 0 \<le> m then \<lfloor>m * 100 + 1 / 2\<rfloor> else - \<lfloor>- m * 100 + 1 / 2\<rfloor>)
      in if \<bar>c\<bar> < 10000 then Some (of_int c / 100) else None)"

definition insertPrediction ::
  "string \<Rightarrow> rat \<Rightarrow> rat \<Rightarrow> int \<Rightarrow> int \<Rightarrow> int \<Rightarrow> int \<Rightarrow> int \<Rightarrow> db \<Rightarrow> error + prediction \<times> db" where
  \<comment> \<open>\<open>INSERT INTO predictions (...) VALUES (..., 'open', $14) RETURNING *\<close>; the other
      columns take their defaults\<close>
  "insertPrediction sub yes no minBet maxBet opens closes resolves d =
     (case numeric42 yes of
        None \<Rightarrow> Inl NumericOverflow
      | Some y \<Rightarrow>
     (case numeric42 no of
        None \<Rightarrow> Inl NumericOverflow
      | Some n \<Rightarrow>
          let p = \<lparr>p_id = nextId (map p_id (predictions d)), subcategory = sub,
                   p_status = ''open'', outcome = None, yes_payout_multiplier = y,
                   no_payout_multiplier = n, min_bet = minBet, max_bet = maxBet,
                   opens_at = opens, closes_at = closes, resolves_at = resolves,
                   resolution_source = None, resolved_by = None, total_yes_tokens = 0,
                   total_no_tokens = 0, total_bettors = 0\<rparr>
          in Inr (p, d\<lparr>predictions := predictions d @ [p]\<rparr>)))"

definition createPrediction :: "int \<Rightarrow> create_request \<Rightarrow> prediction io" where
  \<comment> \<open>POST /api/predictions/admin/create; the body's defaults are \<open>yesMultiplier = 2.0\<close>,
      \<open>noMultiplier = 2.0\<close>, \<open>minBet = 10\<close>, \<open>maxBet = 10000\<close>, and \<open>opensAt || new Date()\<close>;
      nothing checks the multipliers or the bounds\<close>
  "createPrediction now req =
     (if cr_adminEmail req = [] then throw AdminRequired
      else if cr_title req = [] \<or> cr_category req = [] then throw MissingFields
      else case cr_closesAt req of
             None \<Rightarrow> throw MissingFields
           | Some closesAt \<Rightarrow>
          (case cr_resolvesAt req of
             None \<Rightarrow> throw MissingFields
           | Some resolvesAt \<Rightarrow>
               query Pool (insertPrediction (cr_subcategory req)
                 (case cr_yesMultiplier req of None \<Rightarrow> 2 | Some m \<Rightarrow> m)
                 (case cr_noMultiplier req of None \<Rightarrow> 2 | Some m \<Rightarrow> m)
                 (case cr_minBet req of None \<Rightarrow> 10 | Some n \<Rightarrow> n)
                 (case cr_maxBet req of None \<Rightarrow> 10000 | Some n \<Rightarrow> n)
                 (case cr_opensAt req of None \<Rightarrow> now | Some t \<Rightarrow> t)
                 closesAt resolvesAt)))"

definition openDue :: "int \<Rightarrow> db \<Rightarrow> error + nat \<times> db" where
  \<comment> \<open>\<open>UPDATE predictions SET status = 'open' WHERE status = 'upcoming'
      AND opens_at <= $1 AND closes_at > $1 RETURNING id, title\<close>, the number of rows\<close>
  "openDue now d =
     Inr (length (filter (\<lambda>p. p_status p = ''upcoming'' \<and> opens_at p \<le> now \<and> closes_at p > now)
                    (predictions d)),
          d\<lparr>predictions :=
              map (\<lambda>p. if p_status p = ''upcoming'' \<and> opens_at p \<le> now \<and> closes_at p > now
                        then p\<lparr>p_status := ''open''\<rparr> else p) (predictions d)\<rparr>)"

definition closeDue :: "int \<Rightarrow> db \<Rightarrow> error + nat \<times> db" where
  \<comment> \<open>\<open>UPDATE predictions SET status = 'closed' WHERE status = 'open'
      AND closes_at <= $1 RETURNING id, title\<close>, the number of rows\<close>
  "closeDue now d =
     Inr (length (filter (\<lambda>p. p_status p = ''open'' \<and> closes_at p \<le> now) (predictions d)),
          d\<lparr>predictions :=
              map (\<lambda>p. if p_status p = ''open'' \<and> closes_at p \<le> now
                        then p\<lparr>p_status := ''closed''\<rparr> else p) (predictions d)\<rparr>)"

definition updatePredictionStatuses :: "int \<Rightarrow> (nat \<times> nat) io" where
  \<comment> \<open>the status sweep of the generator script\<close>
  "updatePredictionStatuses now =
     bnd (query Pool (openDue now)) (\<lambda>opened.
     bnd (query Pool (closeDue now)) (\<lambda>closed.
     ret (opened, closed)))"

section \<open>Funds in and account creation\<close>

definition TOKEN_PACKAGES :: "string \<Rightarrow> int option" where
  \<comment> \<open>the \<open>tokens\<close> of each package\<close>
  "TOKEN_PACKAGES packageId =
     (if packageId = ''starter'' then Some 250
      else if packageId = ''popular'' then Some 1000
      else if packageId = ''whale'' then Some 2500
      else None)"

definition purchased :: "int \<Rightarrow> account \<Rightarrow> account" where
  \<comment> \<open>\<open>SET balance = balance + $1, total_purchased = total_purchased + $1\<close>\<close>
  "purchased n a = a\<lparr>balance := balance a + n, total_purchased := total_purchased a + n\<rparr>"

definition purchaseCompleted :: "string \<Rightarrow> string \<Rightarrow> unit io" where
  \<comment> \<open>the webhook on \<open>checkout.session.completed\<close>, for the session that the purchase
      route opened for a package; its errors are logged and dropped\<close>
  "purchaseCompleted user_email packageId =
     (case TOKEN_PACKAGES packageId of
        None \<Rightarrow> ret ()
      | Some tokensToAdd \<Rightarrow>
          tryCatch
            (bnd (query Pool ddl) (\<lambda>_.
             query Pool (updateUser (purchased tokensToAdd) user_email)))
            (\<lambda>_. ret ()))"

definition insertUser :: "string \<Rightarrow> db \<Rightarrow> error + account \<times> db" where
  \<comment> \<open>\<open>INSERT INTO user_tokens (user_email, balance) VALUES ($1, 0) RETURNING *\<close>\<close>
  "insertUser e d =
     (if user_tokens d e \<noteq> None then Inl ConstraintViolation
      else let a = \<lparr>balance = 0, total_purchased = 0, total_won = 0, total_lost = 0\<rparr>
           in Inr (a, d\<lparr>user_tokens := (user_tokens d)(e \<mapsto> a)\<rparr>))"

definition getOrCreateTokenAccount :: "string \<Rightarrow> account io" where
  "getOrCreateTokenAccount e =
     bnd (query Pool (selectUser e)) (\<lambda>result.
     case result of
       Some a \<Rightarrow> ret a
     | None \<Rightarrow> query Pool (insertUser e))"

section \<open>Sequences of operations\<close>

datatype op =
    PlaceBet int bet_request
  | KalshiBet kalshi kalshi_request
  | RequestPayout payout_form
  | ProcessPayout review
  | Resolve resolve_request
  | ManualResolve nat string string string
  | AutoResolve price_oracle int
  | SyncResolutions kalshi
  | FundsIn string string
  | GetBalance string
  | CreateMarket int create_request
  | Sweep int

fun step :: "op \<Rightarrow> bool list \<Rightarrow> db \<Rightarrow> db" where
  \<comment> \<open>the tables after one call under a fault schedule\<close>
  "step (PlaceBet now req) fs d = snd (run (placeBet now req) fs d)"
| "step (KalshiBet k req) fs d = snd (run (kalshiBet k req) fs d)"
| "step (RequestPayout req) fs d = snd (run (requestPayout req) fs d)"
| "step (ProcessPayout rv) fs d = snd (run (processPayout rv) fs d)"
| "step (Resolve req) fs d = snd (run (resolve req) fs d)"
| "step (ManualResolve i out admin src) fs d = snd (run (manualResolve i out admin src) fs d)"
| "step (AutoResolve orc now) fs d = snd (run (resolveReadyPredictions orc now) fs d)"
| "step (SyncResolutions k) fs d = snd (run (syncResolutions k) fs d)"
| "step (FundsIn e packageId) fs d = snd (run (purchaseCompleted e packageId) fs d)"
| "step (GetBalance e) fs d = snd (run (getOrCreateTokenAccount e) fs d)"
| "step (CreateMarket now req) fs d = snd (run (createPrediction now req) fs d)"
| "step (Sweep now) fs d = snd (run (updatePredictionStatuses now) fs d)"

fun exec :: "(op \<times> bool list) list \<Rightarrow> db \<Rightarrow> db" where
  "exec [] d = d"
| "exec ((c, fs) # rest) d = exec rest (step c fs d)"


definition emptyDb :: db where
  "emptyDb = \<lparr>user_tokens = Map.empty, predictions = [], user_bets = [], kalshi_bets = [],
              payout_requests = []\<rparr>"

section \<open>Outcomes of a program from a session\<close>

definition wp :: "'a io \<Rightarrow> ('a \<Rightarrow> session \<Rightarrow> bool) \<Rightarrow> (error \<Rightarrow> session \<Rightarrow> bool) \<Rightarrow> session \<Rightarrow> bool" where
  \<comment> \<open>\<open>Q\<close> holds of the result and the session when the program returns, \<open>E\<close> of the
      error and the session when it throws\<close>
  "wp m Q E s = (case m s of (Inr x, s') \<Rightarrow> Q x s' | (Inl e, s') \<Rightarrow> E e s')"

section \<open>Invariants of the tables\<close>

definition oneWager :: "db \<Rightarrow> bool" where
  \<comment> \<open>no two wagers of one user on one market, in either wager table\<close>
  "oneWager d =
     (distinct (map (\<lambda>b. (ub_user_email b, ub_prediction_id b)) (user_bets d))
      \<and> distinct (map (\<lambda>b. (kb_user_email b, kb_kalshi_ticker b)) (kalshi_bets d)))"


definition sinv :: "(db \<Rightarrow> bool) \<Rightarrow> session \<Rightarrow> bool" where
  \<comment> \<open>the invariant holds of the tables and of the tables a ROLLBACK would restore\<close>
  "sinv I s = (I (tables s) \<and> (case saved s of None \<Rightarrow> True | Some d \<Rightarrow> I d))"

definition pres :: "(db \<Rightarrow> bool) \<Rightarrow> 'a io \<Rightarrow> bool" where
  \<comment> \<open>a program keeps the invariant, whether it returns or throws\<close>
  "pres I m = (\<forall>s. sinv I s \<longrightarrow> wp m (\<lambda>_. sinv I) (\<lambda>_. sinv I) s)"

definition txn :: "db \<Rightarrow> 'a io \<Rightarrow> bool" where
  \<comment> \<open>inside a transaction begun at \<open>d0\<close>, the program leaves it open\<close>
  "txn d0 m = (\<forall>s::session. saved s = Some d0 \<longrightarrow>
                 wp m (\<lambda>_ s'. saved s' = Some d0) (\<lambda>_ s'. saved s' = Some d0) s)"

definition rollsBack :: "db \<Rightarrow> 'a io \<Rightarrow> bool" where
  \<comment> \<open>inside a transaction begun at \<open>d0\<close>, the program throws only with it open\<close>
  "rollsBack d0 m = (\<forall>s::session. saved s = Some d0 \<longrightarrow>
                 wp m (\<lambda>_ _. True) (\<lambda>_ s'. saved s' = Some d0) s)"

section \<open>The Kalshi sync against the settlement loop\<close>

definition asUserBet :: "kalshi_bet \<Rightarrow> user_bet" where
  \<comment> \<open>a Kalshi wager read as a wager of \<open>user_bets\<close>\<close>
  "asUserBet b =
     \<lparr>ub_id = kb_id b, ub_user_email = kb_user_email b, ub_prediction_id = 0,
      ub_position = kb_position b, ub_tokens_wagered = kb_tokens_wagered b,
      ub_potential_payout = kb_potential_payout b, ub_status = kb_status b,
      ub_tokens_won = kb_tokens_won b, ub_payout_processed = False\<rparr>"

definition purse :: "db \<Rightarrow> string \<Rightarrow> (int \<times> int) option" where
  \<comment> \<open>an account's balance and \<open>total_lost\<close>\<close>
  "purse d e = map_option (\<lambda>a. (balance a, total_lost a)) (user_tokens d e)"

definition samePurse :: "session \<Rightarrow> session \<Rightarrow> bool" where
  "samePurse s1 s2 =
     (faults s1 = [] \<and> faults s2 = [] \<and> (\<forall>e. purse (tables s1) e = purse (tables s2) e))"

section \<open>Scenarios\<close>

text \<open>
  The scenario of the specification: an account with 1000 tokens and a market with
  multipliers 2.0, bets from 10 to 500 tokens.
\<close>

definition acct :: "int \<Rightarrow> account" where
  "acct n = \<lparr>balance = n, total_purchased = n, total_won = 0, total_lost = 0\<rparr>"

definition market1 :: "string \<Rightarrow> string option \<Rightarrow> prediction" where
  "market1 st out =
     \<lparr>p_id = 1, subcategory = ''close_green'', p_status = st, outcome = out,
      yes_payout_multiplier = 2, no_payout_multiplier = 2, min_bet = 10, max_bet = 500,
      opens_at = 0, closes_at = 100, resolves_at = 200, resolution_source = None, resolved_by = None,
      total_yes_tokens = 0, total_no_tokens = 0, total_bettors = 0\<rparr>"

definition db0 :: db where
  "db0 = \<lparr>user_tokens = [''alice'' \<mapsto> acct 1000], predictions = [market1 ''open'' None],
          user_bets = [], kalshi_bets = [], payout_requests = []\<rparr>"

definition bet100 :: bet_request where
  "bet100 = \<lparr>br_email = ''alice'', br_predictionId = 1, br_position = ''yes'',
             br_amount = Num 100\<rparr>"

text \<open>A payout of 2000 tokens requested by an account that held 5000.\<close>

definition form2000 :: payout_form where
  "form2000 = \<lparr>pf_email = ''alice'', pf_tokensAmount = Num 2000, pf_method = ''zelle'',
               pf_destination = ''alice''\<rparr>"

definition payout1 :: payout_request where
  "payout1 = \<lparr>pr_id = 1, pr_user_email = ''alice'', pr_tokens_amount = 2000,
              pr_payout_method = ''zelle'', pr_payout_destination = ''alice'',
              pr_status = ''pending'', pr_reviewed_by = None\<rparr>"

definition dbPayout :: db where
  "dbPayout = \<lparr>user_tokens = [''alice'' \<mapsto> (acct 5000)\<lparr>balance := 3000\<rparr>], predictions = [],
               user_bets = [], kalshi_bets = [], payout_requests = [payout1]\<rparr>"

definition db5000 :: db where
  "db5000 = \<lparr>user_tokens = [''alice'' \<mapsto> acct 5000], predictions = [], user_bets = [],
              kalshi_bets = [], payout_requests = []\<rparr>"

definition reject1 :: review where
  "reject1 = \<lparr>rv_payoutId = 1, rv_adminEmail = ''admin'', rv_status = ''rejected''\<rparr>"

text \<open>
  The market closed with Alice's bet of 100 tokens on yes still active, and the same
  state after the market alone was marked resolved.
\<close>

definition kbet100 :: kalshi_request where
  "kbet100 = \<lparr>kr_email = ''alice'', kr_marketTicker = ''KX'', kr_position = ''yes'',
               kr_amount = Num 100\<rparr>"

definition bet1 :: user_bet where
  "bet1 = \<lparr>ub_id = 1, ub_user_email = ''alice'', ub_prediction_id = 1, ub_position = ''yes'',
           ub_tokens_wagered = 100, ub_potential_payout = 200, ub_status = ''active'',
           ub_tokens_won = 0, ub_payout_processed = False\<rparr>"

definition dbClosed :: db where
  "dbClosed = \<lparr>user_tokens = [''alice'' \<mapsto> (acct 1000)\<lparr>balance := 900\<rparr>],
               predictions = [market1 ''closed'' None], user_bets = [bet1], kalshi_bets = [],
               payout_requests = []\<rparr>"

definition dbStuck :: db where
  "dbStuck = dbClosed\<lparr>predictions :=
               [markResolved ''yes'' ''Yahoo Finance'' ''auto-resolver'' (market1 ''closed'' None)]\<rparr>"

definition green :: price_oracle where
  "green = \<lparr>getQuote = (\<lambda>_. Some True), weeklyMove = (\<lambda>_. None)\<rparr>"

definition resolveYes :: resolve_request where
  "resolveYes = \<lparr>rr_id = 1, rr_outcome = ''yes'', rr_adminEmail = ''admin'', rr_source = []\<rparr>"

text \<open>Alice's bet of 100 tokens on yes on the Kalshi market KX, which Kalshi finalizes as yes.\<close>

definition kbet1 :: kalshi_bet where
  "kbet1 = \<lparr>kb_id = 1, kb_user_email = ''alice'', kb_kalshi_ticker = ''KX'', kb_position = ''yes'',
            kb_tokens_wagered = 100, kb_potential_payout = 200, kb_kalshi_status = ''open'',
            kb_status = ''active'', kb_tokens_won = 0\<rparr>"

definition dbKalshi :: db where
  "dbKalshi = \<lparr>user_tokens = [''alice'' \<mapsto> (acct 1000)\<lparr>balance := 900\<rparr>],
               predictions = [], user_bets = [], kalshi_bets = [kbet1], payout_requests = []\<rparr>"

definition dbKalshiHalf :: db where
  "dbKalshiHalf = dbKalshi\<lparr>kalshi_bets := [kalshiSettled ''won'' 200 kbet1]\<rparr>"

definition finalizedYes :: kalshi where
  "finalizedYes = (\<lambda>_. Market \<lparr>km_status = ''finalized'', km_result = ''yes'', km_yes_ask = 50\<rparr>)"

definition openKX :: kalshi_market where
  "openKX = \<lparr>km_status = ''open'', km_result = [], km_yes_ask = 50\<rparr>"

definition dbRich :: db where
  "dbRich = db0\<lparr>user_tokens := [''alice'' \<mapsto> acct 20000]\<rparr>"

definition dbOpenBet :: db where
  "dbOpenBet = dbClosed\<lparr>predictions := [market1 ''open'' None]\<rparr>"

definition dbPoor :: db where
  "dbPoor = db0\<lparr>user_tokens := [''alice'' \<mapsto> acct 50]\<rparr>"

text \<open>
  Two market creations by an admin, one with a yes multiplier of -5 and one with the
  defaults, and a bet of the 250 tokens of the starter package.
\<close>

definition badMarket :: create_request where
  "badMarket = \<lparr>cr_adminEmail = ''admin'', cr_title = ''T'', cr_category = ''daily'',
                 cr_subcategory = ''close_green'', cr_yesMultiplier = Some (- 5),
                 cr_noMultiplier = None, cr_minBet = None, cr_maxBet = None, cr_opensAt = None,
                 cr_closesAt = Some 100, cr_resolvesAt = Some 200\<rparr>"

definition plainMarket :: create_request where
  "plainMarket = badMarket\<lparr>cr_yesMultiplier := None\<rparr>"

definition bet250 :: bet_request where
  "bet250 = bet100\<lparr>br_amount := Num 250\<rparr>"

section \<open>Rules for outcomes\<close>

lemma wp_ret: "wp (ret x) Q E s = Q x s"
  by (simp add: wp_def ret_def)

lemma wp_throw: "wp (throw e) Q E s = E e s"
  by (simp add: wp_def throw_def)

lemma wp_bnd: "wp (bnd m k) Q E s = wp m (\<lambda>x. wp (k x) Q E) E s"
  by (simp add: wp_def bnd_def split: prod.splits sum.splits)

lemma wp_tryCatch: "wp (tryCatch m h) Q E s = wp m Q (\<lambda>e. wp (h e) Q E) s"
  by (simp add: wp_def tryCatch_def split: prod.splits sum.splits)

lemma wp_guard: "wp (guard c e) Q E s = (if c then E e s else Q () s)"
  by (simp add: guard_def wp_ret wp_throw)

lemma wp_query:
  "wp (query c q) Q E s =
     (if fails (faults s) then E (StorageFailure c) (s\<lparr>faults := tl (faults s)\<rparr>)
      else (case q (tables s) of
              Inl e \<Rightarrow> E e (s\<lparr>faults := tl (faults s)\<rparr>)
            | Inr (r, d) \<Rightarrow> Q r (s\<lparr>faults := tl (faults s), tables := d\<rparr>)))"
  by (simp add: wp_def query_def split: prod.splits sum.splits)

lemma wp_BEGIN:
  "wp BEGIN Q E s =
     (if fails (faults s) then E (StorageFailure Client) (s\<lparr>faults := tl (faults s)\<rparr>)
      else Q () (s\<lparr>faults := tl (faults s), saved := Some (tables s)\<rparr>))"
  by (simp add: wp_def BEGIN_def)

lemma wp_COMMIT:
  "wp COMMIT Q E s =
     (if fails (faults s) then E (StorageFailure Client) (s\<lparr>faults := tl (faults s)\<rparr>)
      else Q () (s\<lparr>faults := tl (faults s), saved := None\<rparr>))"
  by (simp add: wp_def COMMIT_def)

lemma wp_ROLLBACK:
  "wp ROLLBACK Q E s =
     Q () (s\<lparr>tables := (case saved s of None \<Rightarrow> tables s | Some d \<Rightarrow> d), saved := None\<rparr>)"
  by (simp add: wp_def ROLLBACK_def)

lemma wp_rollbackAnd:
  "wp (rollbackAnd h e) Q E s =
     wp (h e) Q E (s\<lparr>tables := (case saved s of None \<Rightarrow> tables s | Some d \<Rightarrow> d), saved := None\<rparr>)"
  by (simp add: rollbackAnd_def wp_bnd wp_ROLLBACK)

lemma wp_kalshiRequest:
  "wp (kalshiRequest k t) Q E s =
     (case k t of Unavailable \<Rightarrow> E OracleFailure s | NoMarket \<Rightarrow> Q None s
      | Market m \<Rightarrow> Q (Some m) s)"
  by (simp add: kalshiRequest_def wp_ret wp_throw split: kalshi_reply.splits)

lemmas wp_simps =
  wp_ret wp_throw wp_bnd wp_tryCatch wp_guard wp_query wp_BEGIN wp_COMMIT wp_rollbackAnd
  wp_kalshiRequest

lemma wp_mono:
  assumes "wp m Q E s"
    and "\<And>x s'. Q x s' \<Longrightarrow> Q' x s'"
    and "\<And>e s'. E e s' \<Longrightarrow> E' e s'"
  shows "wp m Q' E' s"
  using assms by (auto simp: wp_def split: prod.splits sum.splits)

lemma wp_run:
  assumes "wp h (\<lambda>x s. P (Inr x, tables s)) (\<lambda>e s. P (Inl e, tables s))
             \<lparr>faults = fs, saved = None, tables = d\<rparr>"
  shows "P (run h fs d)"
  using assms by (simp add: wp_def run_def split: prod.splits sum.splits)

lemmas stmt_defs =
  selectPrediction_def selectUserBets_def selectUser_def updateUser_def insertUserBet_def
  updatePrediction_def selectBalance_def selectActiveBets_def updateUserBet_def
  ddl_def selectKalshiBets_def insertKalshiBet_def selectActiveTickers_def
  selectActiveKalshiBets_def updateKalshiBet_def insertPayoutRequest_def refused_def
  selectPayout_def updatePayoutStatus_def insertUser_def selectReady_def
  insertPrediction_def openDue_def closeDue_def

lemmas run_defs =
  run_def ret_def throw_def bnd_def tryCatch_def guard_def fails_def query_def BEGIN_def
  COMMIT_def ROLLBACK_def rollbackAnd_def kalshiRequest_def

lemmas scenario_defs = acct_def market1_def db0_def bet100_def form2000_def payout1_def
  dbPayout_def db5000_def reject1_def bet1_def dbClosed_def dbStuck_def green_def resolveYes_def
  kbet1_def dbKalshi_def dbKalshiHalf_def finalizedYes_def openKX_def dbRich_def
  dbOpenBet_def dbPoor_def kbet100_def badMarket_def plainMarket_def bet250_def
  emptyDb_def

section \<open>Placing a bet: the ledger\<close>

lemma placeBet_rejected:
  "case run (placeBet now req) fs d of
     (Inl e, d') \<Rightarrow> e \<noteq> StorageFailure Pool \<longrightarrow> d' = d
   | (Inr x, d') \<Rightarrow> True"
  by (rule wp_run)
     (simp add: placeBet_def betTransaction_def wp_simps stmt_defs Let_def
           split: amount.splits option.splits)

lemma placeBet_debits:
  "case run (placeBet now req) fs d of
     (Inl e, d') \<Rightarrow> True
   | (Inr (bet, newBalance), d') \<Rightarrow>
       (\<exists>a t. br_amount req = Num t \<and> user_tokens d (br_email req) = Some a
              \<and> map_option balance (user_tokens d' (br_email req)) = Some (balance a - t))"
  by (rule wp_run)
     (simp add: placeBet_def betTransaction_def wp_simps stmt_defs Let_def debit_def
           split: amount.splits option.splits)

lemma kalshiBet_rejected:
  "case run (kalshiBet k req) fs d of
     (Inl e, d') \<Rightarrow> e \<noteq> StorageFailure Pool \<longrightarrow> d' = d
   | (Inr x, d') \<Rightarrow> True"
  by (rule wp_run)
     (simp add: kalshiBet_def kalshiBetTransaction_def wp_simps stmt_defs Let_def
           split: amount.splits option.splits kalshi_reply.splits)

lemma kalshiBet_debits:
  "case run (kalshiBet k req) fs d of
     (Inl e, d') \<Rightarrow> True
   | (Inr (bet, newBalance), d') \<Rightarrow>
       (\<exists>a t. kr_amount req = Num t \<and> user_tokens d (kr_email req) = Some a
              \<and> map_option balance (user_tokens d' (kr_email req)) = Some (balance a - t))"
  by (rule wp_run)
     (simp add: kalshiBet_def kalshiBetTransaction_def wp_simps stmt_defs Let_def debit_def
           split: amount.splits option.splits kalshi_reply.splits)

text \<open>
  C4. A bet that is answered has debited exactly the tokens wagered, and a bet rejected
  by a check or by a failure up to COMMIT leaves every table as it was
  (\<open>placeBet_debits\<close>, \<open>placeBet_rejected\<close>, and the same for the Kalshi route). But both
  routes read the new balance through the pool after COMMIT, still inside the \<open>try\<close>:
  when that ninth statement fails, the route answers with the error, as for a rejected
  bet, while the debit, the wager and the market's counters are committed.
\<close>

theorem bet_rejected_after_commit:
  "run (placeBet 50 bet100) [False, False, False, False, False, False, False, False, True] db0
     = (Inl (StorageFailure Pool),
        db0\<lparr>user_tokens := [''alice'' \<mapsto> (acct 1000)\<lparr>balance := 900\<rparr>],
            predictions := [(market1 ''open'' None)\<lparr>total_yes_tokens := 100, total_bettors := 1\<rparr>],
            user_bets := [bet1]\<rparr>)
   \<and> run (kalshiBet (\<lambda>_. Market openKX) kbet100)
         [False, False, False, False, False, False, False, False, True] db0
     = (Inl (StorageFailure Pool),
        db0\<lparr>user_tokens := [''alice'' \<mapsto> (acct 1000)\<lparr>balance := 900\<rparr>],
            kalshi_bets := [kbet1]\<rparr>)"
  by (simp add: placeBet_def betTransaction_def kalshiBet_def kalshiBetTransaction_def
        run_defs stmt_defs scenario_defs Let_def debit_def addVolume_def nextId_def)

section \<open>Payout requests and their review\<close>

lemma requestPayout_atomic:
  "case run (requestPayout req) fs d of
     (Inr p, d') \<Rightarrow>
       (\<exists>a t. pf_tokensAmount req = Num t \<and> user_tokens d (pf_email req) = Some a
          \<and> map_option balance (user_tokens d' (pf_email req)) = Some (balance a - t)
          \<and> payout_requests d' = payout_requests d @ [p]
          \<and> pr_user_email p = pf_email req \<and> pr_tokens_amount p = t
          \<and> pr_status p = ''pending'')
   | (Inl e, d') \<Rightarrow> d' = d"
  by (rule wp_run)
     (simp add: requestPayout_def payoutTransaction_def wp_simps stmt_defs Let_def debit_def
           split: amount.splits option.splits)

lemma requestPayout_answers:
  assumes "pf_email req \<noteq> []" and "pf_destination req \<noteq> []"
    and "pf_method req \<in> {''zelle'', ''paypal''}"
    and "pf_tokensAmount req = Num t" and "MIN_PAYOUT_TOKENS \<le> t"
    and "user_tokens d (pf_email req) = Some a" and "t \<le> balance a"
  shows "run (requestPayout req) [] d =
           (Inr \<lparr>pr_id = nextId (map pr_id (payout_requests d)), pr_user_email = pf_email req,
                  pr_tokens_amount = t, pr_payout_method = pf_method req,
                  pr_payout_destination = pf_destination req, pr_status = ''pending'',
                  pr_reviewed_by = None\<rparr>,
            d\<lparr>user_tokens := (user_tokens d)(pf_email req \<mapsto> debit t a),
              payout_requests := payout_requests d @
                [\<lparr>pr_id = nextId (map pr_id (payout_requests d)), pr_user_email = pf_email req,
                  pr_tokens_amount = t, pr_payout_method = pf_method req,
                  pr_payout_destination = pf_destination req, pr_status = ''pending'',
                  pr_reviewed_by = None\<rparr>]\<rparr>)"
proof -
  from assms(3) have m: "pf_method req \<noteq> []"
    by auto
  from assms m show ?thesis
    by (simp add: requestPayout_def payoutTransaction_def run_defs stmt_defs Let_def)
qed

lemma processPayout_rejected_credits:
  assumes "rv_status rv = ''rejected''"
    and "find (\<lambda>r. pr_id r = rv_payoutId rv) (payout_requests d) = Some p"
    and "user_tokens d (pr_user_email p) = Some a"
    and "\<not> fails fs" and "\<not> fails (tl fs)"
  shows "\<exists>e. run (processPayout rv) fs d =
           (Inl e, d\<lparr>user_tokens := (user_tokens d)(pr_user_email p \<mapsto> credit (pr_tokens_amount p) a)\<rparr>)"
  using assms by (simp add: processPayout_def run_defs stmt_defs)

lemma processPayout_rejected_run:
  assumes "rv_status rv = ''rejected''"
    and "find (\<lambda>r. pr_id r = rv_payoutId rv) (payout_requests d) = Some p"
    and "user_tokens d (pr_user_email p) = Some a"
  shows "run (processPayout rv) [] d =
           (Inl InconsistentTypes,
            d\<lparr>user_tokens := (user_tokens d)(pr_user_email p \<mapsto> credit (pr_tokens_amount p) a)\<rparr>)"
  using assms by (simp add: processPayout_def run_defs stmt_defs)

lemma processPayout_never_answers:
  "isl (fst (run (processPayout rv) fs d))"
proof -
  have "case run (processPayout rv) fs d of (Inl e, d') \<Rightarrow> True | (Inr u, d') \<Rightarrow> False"
    by (rule wp_run) (simp add: processPayout_def wp_simps stmt_defs split: option.splits)
  thus ?thesis
    by (auto split: prod.splits sum.splits)
qed

lemma processPayout_partial:
  assumes "rv_status rv = ''rejected''"
    and "find (\<lambda>r. pr_id r = rv_payoutId rv) (payout_requests d) = Some p"
    and "user_tokens d (pr_user_email p) = Some a"
  shows "run (processPayout rv) [False, False, True] d =
           (Inl (StorageFailure Pool),
            d\<lparr>user_tokens := (user_tokens d)(pr_user_email p \<mapsto> credit (pr_tokens_amount p) a)\<rparr>)"
  using assms by (simp add: processPayout_def run_defs stmt_defs)

lemma processPayout_twice:
  assumes "rv_status rv = ''rejected''"
    and "find (\<lambda>r. pr_id r = rv_payoutId rv) (payout_requests d) = Some p"
    and "user_tokens d (pr_user_email p) = Some a"
  shows "map_option balance
           (user_tokens (snd (run (processPayout rv) [] (snd (run (processPayout rv) [] d))))
              (pr_user_email p))
         = Some (balance a + 2 * pr_tokens_amount p)"
proof -
  let ?d1 = "snd (run (processPayout rv) [] d)"
  have d1: "?d1 = d\<lparr>user_tokens := (user_tokens d)(pr_user_email p \<mapsto> credit (pr_tokens_amount p) a)\<rparr>"
    using processPayout_rejected_run[OF assms] by simp
  have f1: "find (\<lambda>r. pr_id r = rv_payoutId rv) (payout_requests ?d1) = Some p"
    using assms(2) by (simp add: d1)
  have u1: "user_tokens ?d1 (pr_user_email p) = Some (credit (pr_tokens_amount p) a)"
    by (simp add: d1)
  show ?thesis
    using processPayout_rejected_run[OF assms(1) f1 u1]
    by (simp add: d1 credit_def)
qed

text \<open>
  C8. Creating a payout request debits and inserts in one atomic step: under every
  fault schedule, a request that is answered has debited the requested tokens and
  appended the pending request, and one that is rejected has changed nothing; and a
  well-formed request of at least \<open>MIN_PAYOUT_TOKENS\<close> by an account that holds the
  tokens is answered, with exactly that debit and that row. A review with decision
  \<open>rejected\<close> of an existing request credits the request's \<open>tokens_amount\<close> back to its
  user whenever its first two statements run, and changes nothing else: its third
  statement, the status update, is refused by the database on every call, so the review
  never answers success and the request keeps the status it had.
\<close>

theorem payout_debit_and_reversal:
  "(case run (requestPayout req) fs d of
      (Inr p, d') \<Rightarrow>
        (\<exists>a t. pf_tokensAmount req = Num t \<and> user_tokens d (pf_email req) = Some a
           \<and> map_option balance (user_tokens d' (pf_email req)) = Some (balance a - t)
           \<and> payout_requests d' = payout_requests d @ [p]
           \<and> pr_user_email p = pf_email req \<and> pr_tokens_amount p = t
           \<and> pr_status p = ''pending'')
    | (Inl e, d') \<Rightarrow> d' = d)
   \<and>
   (pf_email req \<noteq> [] \<longrightarrow> pf_destination req \<noteq> [] \<longrightarrow>
    pf_method req \<in> {''zelle'', ''paypal''} \<longrightarrow>
    pf_tokensAmount req = Num t \<longrightarrow> MIN_PAYOUT_TOKENS \<le> t \<longrightarrow>
    user_tokens d (pf_email req) = Some a \<longrightarrow> t \<le> balance a \<longrightarrow>
      run (requestPayout req) [] d =
        (Inr \<lparr>pr_id = nextId (map pr_id (payout_requests d)), pr_user_email = pf_email req,
               pr_tokens_amount = t, pr_payout_method = pf_method req,
               pr_payout_destination = pf_destination req, pr_status = ''pending'',
               pr_reviewed_by = None\<rparr>,
         d\<lparr>user_tokens := (user_tokens d)(pf_email req \<mapsto> debit t a),
           payout_requests := payout_requests d @
             [\<lparr>pr_id = nextId (map pr_id (payout_requests d)), pr_user_email = pf_email req,
               pr_tokens_amount = t, pr_payout_method = pf_method req,
               pr_payout_destination = pf_destination req, pr_status = ''pending'',
               pr_reviewed_by = None\<rparr>]\<rparr>))
   \<and>
   (rv_status rv = ''rejected'' \<longrightarrow>
    find (\<lambda>r. pr_id r = rv_payoutId rv) (payout_requests d) = Some pay \<longrightarrow>
    user_tokens d (pr_user_email pay) = Some acc \<longrightarrow>
      (\<not> fails fs \<and> \<not> fails (tl fs) \<longrightarrow>
         (\<exists>e. run (processPayout rv) fs d =
            (Inl e, d\<lparr>user_tokens :=
                        (user_tokens d)(pr_user_email pay \<mapsto> credit (pr_tokens_amount pay) acc)\<rparr>)))
      \<and> run (processPayout rv) [] d =
          (Inl InconsistentTypes,
           d\<lparr>user_tokens :=
               (user_tokens d)(pr_user_email pay \<mapsto> credit (pr_tokens_amount pay) acc)\<rparr>))
   \<and> isl (fst (run (processPayout rv) fs d))"
  using requestPayout_atomic[where req=req and fs=fs and d=d]
        requestPayout_answers[where req=req and d=d and t=t and a=a]
        processPayout_rejected_credits[where rv=rv and d=d and p=pay and a=acc and fs=fs]
        processPayout_rejected_run[where rv=rv and d=d and p=pay and a=acc]
        processPayout_never_answers[where rv=rv and d=d and fs=fs]
  by simp

theorem payout_debit_and_reversal_witness:
  "run (requestPayout form2000) [] db5000 = (Inr payout1, dbPayout)
   \<and> snd (run (requestPayout form2000) [False, False, False, True] dbPayout) = dbPayout
   \<and> run (processPayout reject1) [] dbPayout = (Inl InconsistentTypes, db5000\<lparr>payout_requests := [payout1]\<rparr>)
   \<and> snd (run (processPayout reject1) [False, False, True] dbPayout)
       = db5000\<lparr>payout_requests := [payout1]\<rparr>
   \<and> map_option balance (user_tokens (snd (run (processPayout reject1) [] dbPayout)) ''alice'')
       = Some 5000"
proof -
  have a: "isl (fst (run (requestPayout form2000) [False, False, False, True] dbPayout))"
    by (simp add: requestPayout_def payoutTransaction_def run_defs stmt_defs scenario_defs
          MIN_PAYOUT_TOKENS_def debit_def Let_def)
  have b: "rv_status reject1 = ''rejected''"
    and c: "find (\<lambda>r. pr_id r = rv_payoutId reject1) (payout_requests dbPayout) = Some payout1"
    and d: "user_tokens dbPayout (pr_user_email payout1) = Some ((acct 5000)\<lparr>balance := 3000\<rparr>)"
    by (simp_all add: scenario_defs)
  have f: "pf_email form2000 \<noteq> []" "pf_destination form2000 \<noteq> []"
    "pf_method form2000 \<in> {''zelle'', ''paypal''}" "pf_tokensAmount form2000 = Num 2000"
    "MIN_PAYOUT_TOKENS \<le> 2000" "user_tokens db5000 (pf_email form2000) = Some (acct 5000)"
    "2000 \<le> balance (acct 5000)"
    by (simp_all add: scenario_defs MIN_PAYOUT_TOKENS_def)
  have "run (requestPayout form2000) [] db5000 = (Inr payout1, dbPayout)"
    using payout_debit_and_reversal[where req=form2000 and d=db5000 and t=2000 and a="acct 5000",
            THEN conjunct2, THEN conjunct1, rule_format, OF f]
    by (simp add: scenario_defs debit_def nextId_def)
  moreover have "snd (run (requestPayout form2000) [False, False, False, True] dbPayout) = dbPayout"
    using payout_debit_and_reversal[where req=form2000 and fs="[False, False, False, True]"
            and d=dbPayout, THEN conjunct1] a
    by (cases "run (requestPayout form2000) [False, False, False, True] dbPayout")
       (auto split: sum.splits)
  moreover have r: "run (processPayout reject1) [] dbPayout
                      = (Inl InconsistentTypes, db5000\<lparr>payout_requests := [payout1]\<rparr>)"
    using payout_debit_and_reversal[where fs="[]" and d=dbPayout and rv=reject1 and pay=payout1
            and acc="(acct 5000)\<lparr>balance := 3000\<rparr>", THEN conjunct2, THEN conjunct2,
            THEN conjunct1, rule_format, OF b c d, THEN conjunct2]
    by (simp add: scenario_defs credit_def)
  moreover have "snd (run (processPayout reject1) [False, False, True] dbPayout)
                   = db5000\<lparr>payout_requests := [payout1]\<rparr>"
  proof -
    have g: "\<not> fails [False, False, True] \<and> \<not> fails (tl [False, False, True])"
      by (simp add: fails_def)
    from payout_debit_and_reversal[where fs="[False, False, True]" and d=dbPayout and rv=reject1
            and pay=payout1 and acc="(acct 5000)\<lparr>balance := 3000\<rparr>", THEN conjunct2,
            THEN conjunct2, THEN conjunct1, rule_format, OF b c d, THEN conjunct1, rule_format,
            OF g]
    obtain e where "run (processPayout reject1) [False, False, True] dbPayout =
        (Inl e, dbPayout\<lparr>user_tokens := (user_tokens dbPayout)(pr_user_email payout1 \<mapsto>
                  credit (pr_tokens_amount payout1) ((acct 5000)\<lparr>balance := 3000\<rparr>))\<rparr>)"
      by blast
    then show ?thesis
      by (simp add: scenario_defs credit_def)
  qed
  moreover have "map_option balance (user_tokens (snd (run (processPayout reject1) [] dbPayout)) ''alice'')
       = Some 5000"
    by (simp add: r) (simp add: scenario_defs)
  ultimately show ?thesis
    by simp
qed

text \<open>
  C9. The review with decision \<open>rejected\<close> is not idempotent. For every existing payout
  request whose user has an account, whatever the request's status: two reviews in a
  row raise the balance by twice \<open>tokens_amount\<close>; and when the status update (the
  third statement) fails, the credit of the second statement stays, so credit and
  status update do not share a transaction. (The database refuses the status update
  on every call, see \<open>updatePayoutStatus\<close>: the request never leaves the status it had.)
\<close>

theorem rejected_review_not_idempotent:
  assumes "rv_status rv = ''rejected''"
    and "find (\<lambda>r. pr_id r = rv_payoutId rv) (payout_requests d) = Some pay"
    and "user_tokens d (pr_user_email pay) = Some acc"
  shows "map_option balance
           (user_tokens (snd (run (processPayout rv) [] (snd (run (processPayout rv) [] d))))
              (pr_user_email pay))
         = Some (balance acc + 2 * pr_tokens_amount pay)
       \<and> run (processPayout rv) [False, False, True] d =
           (Inl (StorageFailure Pool),
            d\<lparr>user_tokens := (user_tokens d)(pr_user_email pay \<mapsto> credit (pr_tokens_amount pay) acc)\<rparr>)"
  using processPayout_twice[OF assms] processPayout_partial[OF assms]
  by simp

theorem rejected_review_not_idempotent_witness:
  "map_option balance
     (user_tokens (snd (run (processPayout reject1) [] (snd (run (processPayout reject1) [] dbPayout))))
        ''alice'')
   = Some 7000"
proof -
  have b: "rv_status reject1 = ''rejected''"
    and c: "find (\<lambda>r. pr_id r = rv_payoutId reject1) (payout_requests dbPayout) = Some payout1"
    and d: "user_tokens dbPayout (pr_user_email payout1) = Some ((acct 5000)\<lparr>balance := 3000\<rparr>)"
    by (simp_all add: scenario_defs)
  from rejected_review_not_idempotent[OF b c d, THEN conjunct1]
  show ?thesis
    by (simp add: scenario_defs)
qed

section \<open>The admin route is one transaction\<close>

lemma txn_simple:
  "txn d0 (ret x)" "txn d0 (throw e)" "txn d0 (guard g e)" "txn d0 (query c q)"
  by (auto simp: txn_def wp_simps split: sum.splits)

lemma txn_bnd:
  assumes "txn d0 m" and "\<And>x. txn d0 (k x)"
  shows "txn d0 (bnd m k)"
  unfolding txn_def
proof (intro allI impI)
  fix s :: session assume "saved s = Some d0"
  with assms(1) have "wp m (\<lambda>_ s'. saved s' = Some d0) (\<lambda>_ s'. saved s' = Some d0) s"
    by (simp add: txn_def)
  then show "wp (bnd m k) (\<lambda>_ s'. saved s' = Some d0) (\<lambda>_ s'. saved s' = Some d0) s"
    unfolding wp_bnd
    by (rule wp_mono) (use assms(2) in \<open>auto simp: txn_def\<close>)
qed

lemma rollsBack_bnd:
  assumes "txn d0 m" and "\<And>x. rollsBack d0 (k x)"
  shows "rollsBack d0 (bnd m k)"
  unfolding rollsBack_def
proof (intro allI impI)
  fix s :: session assume "saved s = Some d0"
  with assms(1) have "wp m (\<lambda>_ s'. saved s' = Some d0) (\<lambda>_ s'. saved s' = Some d0) s"
    by (simp add: txn_def)
  then show "wp (bnd m k) (\<lambda>_ _. True) (\<lambda>_ s'. saved s' = Some d0) s"
    unfolding wp_bnd
    by (rule wp_mono) (use assms(2) in \<open>auto simp: rollsBack_def\<close>)
qed

lemma rollsBack_simple:
  "rollsBack d0 (ret x)" "rollsBack d0 (throw e)" "rollsBack d0 (bnd COMMIT (\<lambda>_. ret x))"
  by (auto simp: rollsBack_def wp_simps)

lemma txn_settleBet: "txn d0 (settleBet out b)"
  unfolding settleBet_def Let_def
  by (rule txn_bnd | rule txn_simple | intro conjI impI allI | simp)+

lemma txn_settleBets: "txn d0 (settleBets out bs)"
  by (induction bs) (auto intro!: txn_bnd txn_simple txn_settleBet)

lemma txn_processLoop: "txn d0 (processLoop out bs acc)"
  by (induction out bs acc rule: processLoop.induct) (auto intro!: txn_bnd txn_simple txn_settleBet)

lemma rollsBack_transaction:
  assumes "\<And>d0. rollsBack d0 body"
  shows "case run (tryCatch (bnd BEGIN (\<lambda>_. body)) (rollbackAnd throw)) fs d of
           (Inl e, d') \<Rightarrow> d' = d | (Inr x, d') \<Rightarrow> True"
proof (rule wp_run)
  let ?s = "\<lparr>faults = fs, saved = None, tables = d\<rparr>"
  let ?post = "\<lambda>(x::'a) (s::session). True"
  let ?err = "\<lambda>(e::error) (s::session). tables s = d"
  have "wp (tryCatch (bnd BEGIN (\<lambda>_. body)) (rollbackAnd throw)) ?post ?err ?s"
  proof (cases "fails fs")
    case True
    then show ?thesis
      by (simp add: wp_simps)
  next
    case False
    have "wp body (\<lambda>_ _. True) (\<lambda>_ s'. saved s' = Some d)
            (?s\<lparr>faults := tl fs, saved := Some d\<rparr>)"
      using assms[of d] by (simp add: rollsBack_def)
    then have "wp body ?post (\<lambda>e. wp (rollbackAnd throw e) ?post ?err)
            (?s\<lparr>faults := tl fs, saved := Some d\<rparr>)"
      by (rule wp_mono) (simp_all add: wp_simps)
    with False show ?thesis
      by (simp add: wp_tryCatch wp_bnd wp_BEGIN)
  qed
  then show "wp (tryCatch (bnd BEGIN (\<lambda>_. body)) (rollbackAnd throw))
          (\<lambda>x s. case (Inr x, tables s) of (Inl e, d') \<Rightarrow> d' = d | (Inr x, d') \<Rightarrow> True)
          (\<lambda>e s. case (Inl e, tables s) of (Inl e, d') \<Rightarrow> d' = d | (Inr x, d') \<Rightarrow> True) ?s"
    by simp
qed

lemma resolve_all_or_nothing:
  "case run (resolve req) fs d of (Inl e, d') \<Rightarrow> d' = d | (Inr n, d') \<Rightarrow> True"
proof (cases "rr_adminEmail req = [] \<or> rr_outcome req \<notin> {''yes'', ''no''}")
  case True
  then show ?thesis
    by (auto simp: resolve_def run_def throw_def)
next
  case False
  let ?body = "bnd (query Client (selectPrediction (rr_id req))) (\<lambda>predictionResult.
     case predictionResult of
       None \<Rightarrow> throw PredictionNotFound
     | Some prediction \<Rightarrow>
     bnd (guard (p_status prediction = ''resolved'') AlreadyResolved) (\<lambda>_.
     bnd (query Client (updatePrediction
            (markResolved (rr_outcome req)
               (if rr_source req = [] then ''Manual resolution'' else rr_source req)
               (rr_adminEmail req))
            (rr_id req))) (\<lambda>_.
     bnd (query Client (selectActiveBets (rr_id req))) (\<lambda>betsResult.
     bnd (settleBets (rr_outcome req) betsResult) (\<lambda>_.
     bnd COMMIT (\<lambda>_.
     ret (length betsResult)))))))"
  have "rollsBack d0 ?body" for d0
    by (rule rollsBack_simple | rule rollsBack_bnd | rule txn_simple txn_settleBets
        | intro conjI impI allI | simp split: option.splits)+
  from rollsBack_transaction[OF this, where fs=fs and d=d]
  have "case run (tryCatch (bnd BEGIN (\<lambda>_. ?body)) (rollbackAnd throw)) fs d of
          (Inl e, d') \<Rightarrow> d' = d | (Inr n, d') \<Rightarrow> True" .
  moreover have "resolve req = tryCatch (bnd BEGIN (\<lambda>_. ?body)) (rollbackAnd throw)"
    using False by (simp add: resolve_def resolveTransaction_def)
  ultimately show ?thesis
    by (simp only:)
qed

lemma processBets_all_or_nothing:
  "case run (processBetsForPrediction i out) fs d of (Inl e, d') \<Rightarrow> d' = d | (Inr n, d') \<Rightarrow> True"
proof -
  have "rollsBack d0 (bnd (query Client (selectActiveBets i)) (\<lambda>betsResult.
        bnd (processLoop out betsResult (0, 0, 0)) (\<lambda>(winners, losers, totalPaidOut).
        bnd COMMIT (\<lambda>_.
        ret (winners, losers, totalPaidOut, length betsResult)))))" for d0
    by (rule rollsBack_simple | rule rollsBack_bnd | rule txn_simple txn_processLoop
        | intro conjI impI allI | simp split: option.splits prod.splits)+
  from rollsBack_transaction[OF this, where fs=fs and d=d] show ?thesis
    by (simp add: processBetsForPrediction_def)
qed

lemma resolve_already_resolved:
  assumes "find (\<lambda>p. p_id p = rr_id req) (predictions d) = Some p" and "p_status p = ''resolved''"
  shows "\<exists>e. run (resolve req) fs d = (Inl e, d)"
  using assms
  by - (rule wp_run,
        simp add: resolve_def resolveTransaction_def wp_simps stmt_defs)

lemma resolve_already_resolved_error:
  assumes "find (\<lambda>p. p_id p = rr_id req) (predictions d) = Some p" and "p_status p = ''resolved''"
    and "rr_adminEmail req \<noteq> []" and "rr_outcome req \<in> {''yes'', ''no''}"
  shows "run (resolve req) [] d = (Inl AlreadyResolved, d)"
  using assms
  by (auto simp: resolve_def resolveTransaction_def run_defs stmt_defs)

lemma settleBet_accounting:
  assumes "faults s = []" and "user_tokens (tables s) (ub_user_email b) = Some a"
  shows "\<exists>s'. settleBet out b s = (Inr (ub_position b = out), s')
           \<and> user_tokens (tables s') (ub_user_email b)
               = Some (if ub_position b = out
                       then a\<lparr>balance := balance a + ub_potential_payout b,
                              total_won := total_won a + (ub_potential_payout b - ub_tokens_wagered b)\<rparr>
                       else a\<lparr>total_lost := total_lost a + ub_tokens_wagered b\<rparr>)"
  using assms
  by (simp add: settleBet_def run_defs stmt_defs Let_def payWinner_def recordLoss_def)

lemma syncBet_accounting:
  assumes "faults s = []" and "user_tokens (tables s) (kb_user_email b) = Some a"
  shows "\<exists>s'. syncBet out b s = (Inr (), s')
           \<and> user_tokens (tables s') (kb_user_email b)
               = Some (if kb_position b = out
                       then a\<lparr>balance := balance a + kb_potential_payout b,
                              total_won := total_won a + kb_potential_payout b\<rparr>
                       else a\<lparr>total_lost := total_lost a + kb_tokens_wagered b\<rparr>)"
  using assms
  by (simp add: syncBet_def run_defs stmt_defs Let_def creditWinner_def recordLoss_def)

lemma placeBet_bounds:
  assumes "br_email req \<noteq> []" "br_predictionId req \<noteq> 0" "br_position req \<in> {''yes'', ''no''}"
    and "br_amount req = Num t" "1 \<le> t"
    and "find (\<lambda>p. p_id p = br_predictionId req) (predictions d) = Some p"
    and "p_status p = ''open''" "now \<le> closes_at p"
    and "\<not> (\<exists>b\<in>set (user_bets d). ub_prediction_id b = br_predictionId req \<and> ub_user_email b = br_email req)"
    and "user_tokens d (br_email req) = Some a" "t \<le> balance a"
  shows "min_bet p \<le> t \<and> t \<le> max_bet p \<longrightarrow>
           (\<exists>bet d'. run (placeBet now req) [] d = (Inr (bet, balance a - t), d')
                    \<and> ub_tokens_wagered bet = t)"
    and "t < min_bet p \<longrightarrow> run (placeBet now req) [] d = (Inl BelowMinimum, d)"
    and "min_bet p \<le> t \<and> max_bet p < t \<longrightarrow> run (placeBet now req) [] d = (Inl AboveMaximum, d)"
proof -
  have "filter (\<lambda>b. ub_prediction_id b = br_predictionId req \<and> ub_user_email b = br_email req) (user_bets d) = []"
    using assms(9) by (simp add: filter_empty_conv)
  with assms show "min_bet p \<le> t \<and> t \<le> max_bet p \<longrightarrow>
           (\<exists>bet d'. run (placeBet now req) [] d = (Inr (bet, balance a - t), d')
                    \<and> ub_tokens_wagered bet = t)"
    and "t < min_bet p \<longrightarrow> run (placeBet now req) [] d = (Inl BelowMinimum, d)"
    and "min_bet p \<le> t \<and> max_bet p < t \<longrightarrow> run (placeBet now req) [] d = (Inl AboveMaximum, d)"
    by (auto simp: placeBet_def betTransaction_def run_defs stmt_defs Let_def debit_def)
qed

section \<open>Where the settlement paths differ\<close>

lemmas settle_defs =
  resolveReadyPredictions_def resolveDailyCloseGreen_def resolveWeeklyRange_def
  processBetsForPrediction_def manualResolve_def settleBet_def resolve_def
  resolveTransaction_def markResolved_def settled_def payWinner_def recordLoss_def
  syncResolutions_def syncMarket_def syncBet_def kalshiSettled_def creditWinner_def

text \<open>
  C1. The admin route rejects every call on a resolved market and changes nothing
  (\<open>resolve_already_resolved\<close>, \<open>resolve_already_resolved_error\<close>). \<open>manualResolve\<close> has
  no such check: on a market that is already resolved, here with a wager still active,
  it answers with one winner paid 200 tokens and the balance goes from 900 to 1100.
\<close>

theorem manualResolve_on_resolved_market:
  "map p_status (predictions dbStuck) = [''resolved'']
   \<and> fst (run (manualResolve 1 ''yes'' ''admin'' ''Manual resolution'') [] dbStuck)
        = Inr (1, 0, 200, 1)
   \<and> map_option balance (user_tokens dbStuck ''alice'') = Some 900
   \<and> map_option balance
        (user_tokens (snd (run (manualResolve 1 ''yes'' ''admin'' ''Manual resolution'') [] dbStuck))
           ''alice'') = Some 1100
   \<and> run (resolve resolveYes) [] dbStuck = (Inl AlreadyResolved, dbStuck)"
  by (simp add: settle_defs run_defs stmt_defs scenario_defs Let_def)

text \<open>
  C2. The admin route and \<open>processBetsForPrediction\<close> change nothing when they throw
  (\<open>resolve_all_or_nothing\<close>, \<open>processBets_all_or_nothing\<close>), but settlement outside
  the admin route is not atomic as a whole. The auto-resolver marks the
  market resolved in a statement of its own: when the winner's credit then fails, the
  transaction of the bets is rolled back, the market stays resolved with the wager
  active, and the next run no longer selects it. The Kalshi sync runs every statement
  on its own: when the winner's credit fails, the wager stays won and unpaid, the error
  is swallowed, and the next run finds no active wager.
\<close>

theorem settlement_left_partial:
  "run (resolveReadyPredictions green 300) [False, False, False, False, False, True] dbClosed
     = (Inl (StorageFailure Client), dbStuck)
   \<and> map p_status (predictions dbStuck) = [''resolved'']
   \<and> map ub_status (user_bets dbStuck) = [''active'']
   \<and> run (resolveReadyPredictions green 300) [] dbStuck = (Inr (0, 0), dbStuck)
   \<and> run (syncResolutions finalizedYes) [False, False, False, True] dbKalshi
     = (Inr (), dbKalshiHalf)
   \<and> map kb_status (kalshi_bets dbKalshiHalf) = [''won'']
   \<and> map_option balance (user_tokens dbKalshiHalf ''alice'') = Some 900
   \<and> run (syncResolutions finalizedYes) [] dbKalshiHalf = (Inr (), dbKalshiHalf)"
  by (simp add: settle_defs run_defs stmt_defs scenario_defs Let_def)

text \<open>
  C3. The settlement loop of the admin route and of the auto-resolver adds the net
  profit to \<open>total_won\<close> (\<open>settleBet_accounting\<close>), the Kalshi sync the whole payout
  (\<open>syncBet_accounting\<close>): for a winning wager of 100 tokens with a potential payout
  of 200, the sync adds 200 where the admin route adds 100. Both credit the balance
  by 200.
\<close>

theorem sync_counts_gross_winnings:
  "map_option total_won (user_tokens (snd (run (syncResolutions finalizedYes) [] dbKalshi)) ''alice'')
     = Some 200
   \<and> map_option balance (user_tokens (snd (run (syncResolutions finalizedYes) [] dbKalshi)) ''alice'')
     = Some 1100
   \<and> kb_potential_payout kbet1 - kb_tokens_wagered kbet1 = 100
   \<and> map_option total_won (user_tokens (snd (run (resolve resolveYes) [] dbClosed)) ''alice'')
     = Some 100
   \<and> map_option balance (user_tokens (snd (run (resolve resolveYes) [] dbClosed)) ''alice'')
     = Some 1100"
  by (simp add: settle_defs run_defs stmt_defs scenario_defs Let_def)

text \<open>
  C10. The internal route accepts a bet within the market's bounds and rejects one
  outside them (\<open>placeBet_bounds\<close>). A Kalshi market is listed with bets from 10 to
  10000 tokens, and the Kalshi bet route, which checks the minimum only, accepts a bet
  of 10001 tokens.
\<close>

theorem kalshi_bet_above_listed_maximum:
  "lm_max_bet (transformKalshiMarket openKX) + 1 = 10001
   \<and> fst (run (kalshiBet (\<lambda>_. Market openKX)
                    \<lparr>kr_email = ''alice'', kr_marketTicker = ''KX'', kr_position = ''yes'',
                     kr_amount = Num 10001\<rparr>) [] dbRich)
       = Inr (\<lparr>kb_id = 1, kb_user_email = ''alice'', kb_kalshi_ticker = ''KX'',
               kb_position = ''yes'', kb_tokens_wagered = 10001, kb_potential_payout = 20002,
               kb_kalshi_status = ''open'', kb_status = ''active'', kb_tokens_won = 0\<rparr>, 9999)
   \<and> map kb_tokens_wagered
        (kalshi_bets (snd (run (kalshiBet (\<lambda>_. Market openKX)
                    \<lparr>kr_email = ''alice'', kr_marketTicker = ''KX'', kr_position = ''yes'',
                     kr_amount = Num 10001\<rparr>) [] dbRich))) = [10001]
   \<and> fst (run (placeBet 50 (bet100\<lparr>br_amount := Num (max_bet (market1 ''open'' None) + 1)\<rparr>))
             [] dbRich) = Inl AboveMaximum"
  by (simp add: kalshiBet_def kalshiBetTransaction_def placeBet_def betTransaction_def
        transformKalshiMarket_def run_defs stmt_defs scenario_defs Let_def debit_def nextId_def)

section \<open>The Kalshi sync and the settlement loop\<close>

lemma samePurse_at:
  assumes "samePurse s1 s2"
  shows "(user_tokens (tables s1) e = None \<and> user_tokens (tables s2) e = None)
       \<or> (\<exists>a1 a2. user_tokens (tables s1) e = Some a1 \<and> user_tokens (tables s2) e = Some a2
             \<and> balance a1 = balance a2 \<and> total_lost a1 = total_lost a2)"
proof -
  have "purse (tables s1) e = purse (tables s2) e"
    using assms by (simp add: samePurse_def)
  then show ?thesis
    by (cases "user_tokens (tables s1) e"; cases "user_tokens (tables s2) e")
       (simp_all add: purse_def)
qed

lemma syncBet_settleBet:
  assumes "samePurse s1 s2"
  shows "\<exists>s1' s2' w. syncBet out b s1 = (Inr (), s1')
           \<and> settleBet out (asUserBet b) s2 = (Inr w, s2') \<and> samePurse s1' s2'"
  using assms samePurse_at[OF assms, of "kb_user_email b"]
  by (auto simp: samePurse_def syncBet_def settleBet_def run_defs stmt_defs Let_def
          asUserBet_def purse_def creditWinner_def payWinner_def recordLoss_def)

lemma syncBets_settleBets:
  assumes "samePurse s1 s2"
  shows "\<exists>s1' s2'. syncBets out bs s1 = (Inr (), s1')
           \<and> settleBets out (map asUserBet bs) s2 = (Inr (), s2') \<and> samePurse s1' s2'"
  using assms
proof (induction bs arbitrary: s1 s2)
  case Nil
  then show ?case by (simp add: ret_def)
next
  case (Cons b bs)
  from syncBet_settleBet[OF Cons.prems, of out b]
  obtain t1 t2 w where a: "syncBet out b s1 = (Inr (), t1)"
    and b: "settleBet out (asUserBet b) s2 = (Inr w, t2)" and c: "samePurse t1 t2"
    by blast
  from Cons.IH[OF c] a b show ?case
    by (simp add: bnd_def)
qed

text \<open>
  C5, as the code has it. The sync route settles Kalshi wagers with statements of its
  own. In a run without storage faults, for a market that Kalshi reports with a result,
  what it does to every account's balance and \<open>total_lost\<close> is what the settlement
  loop of the engine (\<open>settleBets\<close>, run by the admin route) does for the same active
  wagers and the same outcome.
\<close>

theorem syncMarket_purse:
  assumes "k ticker = Market m" and "km_result m \<noteq> []"
  shows "purse (snd (run (syncMarket k ticker) [] d)) e
       = purse (snd (run (settleBets (km_result m)
                 (map asUserBet
                    (filter (\<lambda>b. kb_kalshi_ticker b = ticker \<and> kb_status b = ''active'')
                       (kalshi_bets d)))) [] d)) e"
proof -
  let ?bets = "filter (\<lambda>b. kb_kalshi_ticker b = ticker \<and> kb_status b = ''active'') (kalshi_bets d)"
  let ?s = "\<lparr>faults = [], saved = None, tables = d\<rparr>"
  have "samePurse ?s ?s"
    by (simp add: samePurse_def)
  from syncBets_settleBets[OF this, of "km_result m" ?bets]
  obtain s1 s2 where a: "syncBets (km_result m) ?bets ?s = (Inr (), s1)"
    and b: "settleBets (km_result m) (map asUserBet ?bets) ?s = (Inr (), s2)"
    and c: "samePurse s1 s2"
    by blast
  have "run (syncMarket k ticker) [] d = (Inr (), tables s1)"
    using assms a by (simp add: syncMarket_def run_defs stmt_defs Let_def)
  moreover have "run (settleBets (km_result m) (map asUserBet ?bets)) [] d = (Inr (), tables s2)"
    using b by (simp add: run_def)
  ultimately show ?thesis
    using c by (simp add: samePurse_def)
qed

theorem syncMarket_purse_witness:
  "purse (snd (run (syncMarket finalizedYes ''KX'') [] dbKalshi)) ''alice'' = Some (1100, 0)"
proof -
  have a: "finalizedYes ''KX'' = Market \<lparr>km_status = ''finalized'', km_result = ''yes'', km_yes_ask = 50\<rparr>"
    and b: "km_result \<lparr>km_status = ''finalized'', km_result = ''yes'', km_yes_ask = 50\<rparr> \<noteq> []"
    by (simp_all add: finalizedYes_def)
  show ?thesis
    unfolding syncMarket_purse[where k=finalizedYes and ticker="''KX''", OF a b]
    by (simp add: purse_def asUserBet_def settle_defs run_defs stmt_defs scenario_defs Let_def)
qed

text \<open>
  C5 as it is stated fails, since the ledger as a whole differs: for Alice's winning
  wager the sync leaves \<open>total_won\<close> at 200, the settlement loop at 100.
\<close>

theorem sync_ledger_differs_from_engine:
  "user_tokens (snd (run (syncMarket finalizedYes ''KX'') [] dbKalshi)) ''alice''
     \<noteq> user_tokens (snd (run (settleBets ''yes'' [asUserBet kbet1]) [] dbKalshi)) ''alice''"
  by (simp add: asUserBet_def settle_defs run_defs stmt_defs scenario_defs Let_def)

section \<open>Programs that keep an invariant\<close>

lemma pres_ret: "pres I (ret x)" by (simp add: pres_def wp_simps)
lemma pres_throw: "pres I (throw e)" by (simp add: pres_def wp_simps)
lemma pres_guard: "pres I (guard c e)" by (simp add: pres_def wp_simps)

lemma pres_bnd_res:
  assumes "\<And>s. sinv I s \<Longrightarrow> wp m (\<lambda>x s'. sinv I s' \<and> G x) (\<lambda>_. sinv I) s"
    and "\<And>x. G x \<Longrightarrow> pres I (k x)"
  shows "pres I (bnd m k)"
  unfolding pres_def
proof (intro allI impI)
  fix s assume "sinv I s"
  from assms(1)[OF this] show "wp (bnd m k) (\<lambda>_. sinv I) (\<lambda>_. sinv I) s"
    unfolding wp_bnd
    by (rule wp_mono) (use assms(2) in \<open>auto simp: pres_def\<close>)
qed

lemma pres_bnd:
  assumes "pres I m" and "\<And>x. pres I (k x)"
  shows "pres I (bnd m k)"
  by (rule pres_bnd_res[where G="\<lambda>_. True"]) (use assms in \<open>auto simp: pres_def\<close>)

lemma pres_tryCatch:
  assumes "pres I m" and "\<And>e. pres I (h e)"
  shows "pres I (tryCatch m h)"
  unfolding pres_def
proof (intro allI impI)
  fix s assume "sinv I s"
  with assms(1) have "wp m (\<lambda>_. sinv I) (\<lambda>_. sinv I) s" by (simp add: pres_def)
  then show "wp (tryCatch m h) (\<lambda>_. sinv I) (\<lambda>_. sinv I) s"
    unfolding wp_tryCatch
    by (rule wp_mono) (use assms(2) in \<open>auto simp: pres_def\<close>)
qed

lemma pres_BEGIN: "pres I BEGIN" by (simp add: pres_def wp_simps sinv_def)
lemma pres_COMMIT: "pres I COMMIT" by (simp add: pres_def wp_simps sinv_def)
lemma pres_rollbackAnd: "(\<And>e. pres I (h e)) \<Longrightarrow> pres I (rollbackAnd h e)"
  by (auto simp: pres_def wp_simps sinv_def split: option.splits)

lemma pres_query:
  assumes "\<And>d r d'. I d \<Longrightarrow> q d = Inr (r, d') \<Longrightarrow> I d'"
  shows "pres I (query c q)"
  using assms by (auto simp: pres_def wp_simps sinv_def split: sum.splits)

lemma pres_kalshiRequest: "pres I (kalshiRequest k t)"
  by (simp add: pres_def wp_simps split: kalshi_reply.splits)

lemmas pres_intros = pres_ret pres_throw pres_guard pres_bnd pres_tryCatch pres_BEGIN pres_COMMIT
  pres_rollbackAnd pres_kalshiRequest

lemma pres_run: "pres I h \<Longrightarrow> I d \<Longrightarrow> I (snd (run h fs d))"
  by (auto simp: pres_def run_def wp_def sinv_def split: prod.splits sum.splits
        dest!: spec[where x="\<lparr>faults = fs, saved = None, tables = d\<rparr>"])

section \<open>One wager per user and market\<close>

lemma keys_settled:
  "(\<lambda>b. (ub_user_email b, ub_prediction_id b)) \<circ> (\<lambda>b. if ub_id b = i then settled w t b else b)
     = (\<lambda>b. (ub_user_email b, ub_prediction_id b))"
  by (rule ext) (simp add: settled_def)

lemma keys_kalshiSettled:
  "(\<lambda>b. (kb_user_email b, kb_kalshi_ticker b)) \<circ> (\<lambda>b. if kb_id b = i then kalshiSettled w t b else b)
     = (\<lambda>b. (kb_user_email b, kb_kalshi_ticker b))"
  by (rule ext) (simp add: kalshiSettled_def)

lemma oneWager_queries:
  "pres oneWager (query c (selectPrediction i))"
  "pres oneWager (query c (selectUserBets i e))"
  "pres oneWager (query c (selectUser e))"
  "pres oneWager (query c (selectBalance e))"
  "pres oneWager (query c (selectActiveBets i))"
  "pres oneWager (query c ddl)"
  "pres oneWager (query c (selectKalshiBets t e))"
  "pres oneWager (query c selectActiveTickers)"
  "pres oneWager (query c (selectActiveKalshiBets t))"
  "pres oneWager (query c refused)"
  "pres oneWager (query c (selectPayout i))"
  "pres oneWager (query c (selectReady now))"
  "pres oneWager (query c (updateUser f e))"
  "pres oneWager (query c (updatePrediction g i))"
  "pres oneWager (query c (updatePayoutStatus st by j))"
  "pres oneWager (query c (insertPrediction sub y n' mn mx op cl rs))"
  "pres oneWager (query c (openDue now))"
  "pres oneWager (query c (closeDue now))"
  "pres oneWager (query c (insertPayoutRequest e n me de))"
  "pres oneWager (query c (insertUser e))"
  "pres oneWager (query c (updateUserBet (settled w n) i))"
  "pres oneWager (query c (updateKalshiBet (kalshiSettled st n) i))"
  "pres oneWager (query c (insertUserBet e i pos n pay))"
  "pres oneWager (query c (insertKalshiBet e t pos n pay st))"
  by (rule pres_query;
      auto simp: stmt_defs oneWager_def Let_def keys_settled keys_kalshiSettled
           split: option.splits if_splits)+

lemma oneWager_settleBet: "pres oneWager (settleBet out b)"
  unfolding settleBet_def Let_def
  by (auto intro!: pres_intros oneWager_queries)

lemma oneWager_settleBets: "pres oneWager (settleBets out bs)"
  by (induction bs) (auto intro!: pres_intros oneWager_queries oneWager_settleBet)

lemma oneWager_processLoop: "pres oneWager (processLoop out bs acc)"
  by (induction out bs acc rule: processLoop.induct) (auto intro!: pres_intros oneWager_queries oneWager_settleBet)

lemma oneWager_placeBet: "pres oneWager (placeBet now req)"
  unfolding placeBet_def betTransaction_def Let_def
  by (auto intro!: pres_intros oneWager_queries split: option.splits amount.splits)

lemma oneWager_kalshiBet: "pres oneWager (kalshiBet k req)"
  unfolding kalshiBet_def kalshiBetTransaction_def Let_def
  by (auto intro!: pres_intros oneWager_queries split: option.splits amount.splits)

lemma oneWager_requestPayout: "pres oneWager (requestPayout req)"
  unfolding requestPayout_def payoutTransaction_def Let_def
  by (auto intro!: pres_intros oneWager_queries split: option.splits amount.splits)

lemma oneWager_processPayout: "pres oneWager (processPayout rv)"
  unfolding processPayout_def
  by (auto intro!: pres_intros oneWager_queries split: option.splits)

lemma oneWager_resolve: "pres oneWager (resolve req)"
  unfolding resolve_def resolveTransaction_def
  by (auto intro!: pres_intros oneWager_queries oneWager_settleBets split: option.splits)

lemma oneWager_processBets: "pres oneWager (processBetsForPrediction i out)"
  unfolding processBetsForPrediction_def
  by (auto intro!: pres_intros oneWager_queries oneWager_processLoop split: option.splits prod.splits)

lemma oneWager_manualResolve: "pres oneWager (manualResolve i out a src)"
  unfolding manualResolve_def
  by (auto intro!: pres_intros oneWager_queries oneWager_processBets)

lemma oneWager_resolveEach: "pres oneWager (resolveEach orc ps acc)"
  by (induction orc ps acc rule: resolveEach.induct)
     (auto intro!: pres_intros oneWager_queries oneWager_processBets split: option.splits)

lemma oneWager_resolveReady: "pres oneWager (resolveReadyPredictions orc now)"
  unfolding resolveReadyPredictions_def
  by (auto intro!: pres_intros oneWager_queries oneWager_resolveEach)

lemma oneWager_syncBet: "pres oneWager (syncBet out b)"
  unfolding syncBet_def Let_def
  by (auto intro!: pres_intros oneWager_queries)

lemma oneWager_syncBets: "pres oneWager (syncBets out bs)"
  by (induction bs) (auto intro!: pres_intros oneWager_queries oneWager_syncBet)

lemma oneWager_syncMarket: "pres oneWager (syncMarket k t)"
  unfolding syncMarket_def Let_def
  by (auto intro!: pres_intros oneWager_queries oneWager_syncBets split: option.splits)

lemma oneWager_syncMarkets: "pres oneWager (syncMarkets k ts)"
  by (induction ts) (auto intro!: pres_intros oneWager_queries oneWager_syncMarket)

lemma oneWager_sync: "pres oneWager (syncResolutions k)"
  unfolding syncResolutions_def
  by (auto intro!: pres_intros oneWager_queries oneWager_syncMarkets)

lemma oneWager_purchase: "pres oneWager (purchaseCompleted e pk)"
  unfolding purchaseCompleted_def
  by (auto intro!: pres_intros oneWager_queries split: option.splits)

lemma oneWager_getOrCreate: "pres oneWager (getOrCreateTokenAccount e)"
  unfolding getOrCreateTokenAccount_def
  by (auto intro!: pres_intros oneWager_queries split: option.splits)

lemma oneWager_create: "pres oneWager (createPrediction now req)"
  unfolding createPrediction_def
  by (auto intro!: pres_intros oneWager_queries split: option.splits)

lemma oneWager_sweep: "pres oneWager (updatePredictionStatuses now)"
  unfolding updatePredictionStatuses_def
  by (auto intro!: pres_intros oneWager_queries)

lemma oneWager_step: "oneWager d \<Longrightarrow> oneWager (step c fs d)"
  by (cases c)
     (simp_all add: pres_run oneWager_placeBet oneWager_kalshiBet oneWager_requestPayout
        oneWager_processPayout oneWager_resolve oneWager_manualResolve oneWager_resolveReady
        oneWager_sync oneWager_purchase oneWager_getOrCreate oneWager_create oneWager_sweep)

lemma oneWager_exec: "oneWager d \<Longrightarrow> oneWager (exec ops d)"
  by (induction ops arbitrary: d) (auto simp: oneWager_step)

lemma filter_nonempty: "\<exists>b\<in>set xs. P b \<Longrightarrow> filter P xs \<noteq> []"
  by (simp add: filter_empty_conv)

lemma placeBet_duplicate:
  assumes "\<exists>b\<in>set (user_bets d). ub_prediction_id b = br_predictionId req \<and> ub_user_email b = br_email req"
  shows "\<exists>e. run (placeBet now req) fs d = (Inl e, d)"
  using filter_nonempty[OF assms]
  by - (rule wp_run,
        simp add: placeBet_def betTransaction_def wp_simps stmt_defs Let_def
          split: amount.splits option.splits)

lemma placeBet_duplicate_error:
  assumes "\<exists>b\<in>set (user_bets d). ub_prediction_id b = br_predictionId req \<and> ub_user_email b = br_email req"
    and "br_email req \<noteq> []" "br_predictionId req \<noteq> 0" "br_position req \<in> {''yes'', ''no''}"
    and "br_amount req = Num t" "1 \<le> t"
    and "find (\<lambda>p. p_id p = br_predictionId req) (predictions d) = Some p"
    and "p_status p = ''open''" "now \<le> closes_at p" "min_bet p \<le> t" "t \<le> max_bet p"
  shows "run (placeBet now req) [] d = (Inl AlreadyBet, d)"
  using filter_nonempty[OF assms(1)] assms(2-)
  by (auto simp: placeBet_def betTransaction_def run_defs stmt_defs Let_def)

lemma kalshiBet_duplicate:
  assumes "\<exists>b\<in>set (kalshi_bets d). kb_kalshi_ticker b = kr_marketTicker req \<and> kb_user_email b = kr_email req"
  shows "\<exists>e. run (kalshiBet k req) fs d = (Inl e, d)"
  using filter_nonempty[OF assms]
  by - (rule wp_run,
        simp add: kalshiBet_def kalshiBetTransaction_def wp_simps stmt_defs Let_def
          split: amount.splits option.splits kalshi_reply.splits)

lemma kalshiBet_duplicate_error:
  assumes "\<exists>b\<in>set (kalshi_bets d). kb_kalshi_ticker b = kr_marketTicker req \<and> kb_user_email b = kr_email req"
    and "kr_email req \<noteq> []" "kr_marketTicker req \<noteq> []" "kr_position req \<in> {''yes'', ''no''}"
    and "kr_amount req = Num t" "10 \<le> t"
    and "k (kr_marketTicker req) = Market m" "km_status m \<in> {''open'', ''active''}"
    and "user_tokens d (kr_email req) = Some a" "t \<le> balance a"
  shows "run (kalshiBet k req) [] d = (Inl AlreadyBet, d)"
  using filter_nonempty[OF assms(1)] assms(2-)
  by (auto simp: kalshiBet_def kalshiBetTransaction_def run_defs stmt_defs Let_def)

text \<open>
  C7. Every sequence of calls, under every fault schedule, keeps at most one wager per
  user and market in both wager tables. A bet by a user who already has a wager on the
  market is rejected and leaves the tables as they were; when the request passes the
  checks that the route makes before it looks for an existing wager, and no statement
  fails, the rejection is the duplicate one.
\<close>

theorem one_wager_per_user_and_market:
  "(oneWager d \<longrightarrow> oneWager (exec ops d))
   \<and> ((\<exists>b\<in>set (user_bets d). ub_prediction_id b = br_predictionId req
                               \<and> ub_user_email b = br_email req) \<longrightarrow>
        (\<exists>e. run (placeBet now req) fs d = (Inl e, d))
        \<and> (br_email req \<noteq> [] \<and> br_predictionId req \<noteq> 0
             \<and> br_position req \<in> {''yes'', ''no''} \<and> br_amount req = Num t \<and> 1 \<le> t
             \<and> find (\<lambda>p. p_id p = br_predictionId req) (predictions d) = Some p
             \<and> p_status p = ''open'' \<and> now \<le> closes_at p \<and> min_bet p \<le> t \<and> t \<le> max_bet p
           \<longrightarrow> run (placeBet now req) [] d = (Inl AlreadyBet, d)))
   \<and> ((\<exists>b\<in>set (kalshi_bets d). kb_kalshi_ticker b = kr_marketTicker kreq
                                 \<and> kb_user_email b = kr_email kreq) \<longrightarrow>
        (\<exists>e. run (kalshiBet k kreq) fs d = (Inl e, d))
        \<and> (kr_email kreq \<noteq> [] \<and> kr_marketTicker kreq \<noteq> []
             \<and> kr_position kreq \<in> {''yes'', ''no''} \<and> kr_amount kreq = Num t \<and> 10 \<le> t
             \<and> k (kr_marketTicker kreq) = Market m \<and> km_status m \<in> {''open'', ''active''}
             \<and> user_tokens d (kr_email kreq) = Some a \<and> t \<le> balance a
           \<longrightarrow> run (kalshiBet k kreq) [] d = (Inl AlreadyBet, d)))"
proof (intro conjI impI)
  assume "oneWager d"
  then show "oneWager (exec ops d)"
    by (rule oneWager_exec)
next
  assume "\<exists>b\<in>set (user_bets d). ub_prediction_id b = br_predictionId req
            \<and> ub_user_email b = br_email req"
  then show "\<exists>e. run (placeBet now req) fs d = (Inl e, d)"
    by (rule placeBet_duplicate)
next
  assume "\<exists>b\<in>set (user_bets d). ub_prediction_id b = br_predictionId req
            \<and> ub_user_email b = br_email req"
    and "br_email req \<noteq> [] \<and> br_predictionId req \<noteq> 0
           \<and> br_position req \<in> {''yes'', ''no''} \<and> br_amount req = Num t \<and> 1 \<le> t
           \<and> find (\<lambda>p. p_id p = br_predictionId req) (predictions d) = Some p
           \<and> p_status p = ''open'' \<and> now \<le> closes_at p \<and> min_bet p \<le> t \<and> t \<le> max_bet p"
  then show "run (placeBet now req) [] d = (Inl AlreadyBet, d)"
    by (intro placeBet_duplicate_error[where t=t and p=p]) simp_all
next
  assume "\<exists>b\<in>set (kalshi_bets d). kb_kalshi_ticker b = kr_marketTicker kreq
            \<and> kb_user_email b = kr_email kreq"
  then show "\<exists>e. run (kalshiBet k kreq) fs d = (Inl e, d)"
    by (rule kalshiBet_duplicate)
next
  assume "\<exists>b\<in>set (kalshi_bets d). kb_kalshi_ticker b = kr_marketTicker kreq
            \<and> kb_user_email b = kr_email kreq"
    and "kr_email kreq \<noteq> [] \<and> kr_marketTicker kreq \<noteq> []
           \<and> kr_position kreq \<in> {''yes'', ''no''} \<and> kr_amount kreq = Num t \<and> 10 \<le> t
           \<and> k (kr_marketTicker kreq) = Market m \<and> km_status m \<in> {''open'', ''active''}
           \<and> user_tokens d (kr_email kreq) = Some a \<and> t \<le> balance a"
  then show "run (kalshiBet k kreq) [] d = (Inl AlreadyBet, d)"
    by (intro kalshiBet_duplicate_error[where t=t and m=m and a=a]) simp_all
qed

theorem one_wager_per_user_and_market_witness:
  "oneWager (exec [(PlaceBet 50 bet100, []), (PlaceBet 50 bet100, [])] db0)
   \<and> run (placeBet 50 bet100) [] dbOpenBet = (Inl AlreadyBet, dbOpenBet)"
proof -
  have a: "oneWager db0"
    by (simp add: oneWager_def scenario_defs)
  have b: "\<exists>b\<in>set (user_bets dbOpenBet). ub_prediction_id b = br_predictionId bet100
             \<and> ub_user_email b = br_email bet100"
    by (simp add: scenario_defs)
  have c: "br_email bet100 \<noteq> [] \<and> br_predictionId bet100 \<noteq> 0
             \<and> br_position bet100 \<in> {''yes'', ''no''} \<and> br_amount bet100 = Num 100 \<and> 1 \<le> (100::int)
             \<and> find (\<lambda>p. p_id p = br_predictionId bet100) (predictions dbOpenBet)
                 = Some (market1 ''open'' None)
             \<and> p_status (market1 ''open'' None) = ''open''
             \<and> 50 \<le> closes_at (market1 ''open'' None)
             \<and> min_bet (market1 ''open'' None) \<le> 100 \<and> 100 \<le> max_bet (market1 ''open'' None)"
    by (simp add: scenario_defs)
  from one_wager_per_user_and_market[where d=db0, THEN conjunct1, rule_format, OF a]
  have "oneWager (exec [(PlaceBet 50 bet100, []), (PlaceBet 50 bet100, [])] db0)" .
  moreover
  from one_wager_per_user_and_market[where d=dbOpenBet and req=bet100 and now=50 and t=100
      and p="market1 ''open'' None", THEN conjunct2, THEN conjunct1, rule_format, OF b,
      THEN conjunct2, rule_format, OF c]
  have "run (placeBet 50 bet100) [] dbOpenBet = (Inl AlreadyBet, dbOpenBet)" .
  ultimately show ?thesis
    by simp
qed

section \<open>Balances never go negative\<close>













































end
